theory Spec2Isabelle
  imports Main "HOL-Library.Word"
begin

section \<open>The JNI binding of the OdroidThings hardware service\<close>

text \<open>
  A shallow embedding of
  \<^verbatim>\<open>services/core/jni/com_google_android_things_odroidThingService.cpp\<close>:
  the lazily created service handle (\<^verbatim>\<open>OdroidThingHal\<close>), the GPIO callback
  bridge (\<^verbatim>\<open>Callback\<close>) and the native methods that marshal their
  arguments and forward them to the \<^verbatim>\<open>IOdroidThings\<close> service.

  The service, the service manager and the Java runtime are outside the file. They are
  parameters of the model: a service is a record of its methods, each a function on the
  state of the remote side; the service manager is the sequence of answers it gives to
  \<^verbatim>\<open>getService()\<close>; what reaches the Java runtime is a trace of events.
  What C++ leaves undefined or what ends the process (calling through a null
  \<^verbatim>\<open>sp\<close>, reading past the end of a buffer, a failed \<^verbatim>\<open>Return\<close> that
  is used or dropped unchecked) is a value of type \<open>fatal\<close>.
\<close>

subsection \<open>Values crossing the boundary\<close>

text \<open>
  \<^verbatim>\<open>jint\<close> is a 32-bit signed integer. The file only compares lengths and counts
  \<^verbatim>\<open>i\<close> up to them, so no operation on it can wrap and it is an \<open>int\<close>.
  \<^verbatim>\<open>jbyte\<close> and \<^verbatim>\<open>uint8_t\<close> are the same eight bits (the source casts the
  pointer, not the values); \<^verbatim>\<open>jdouble\<close> is passed through as its 64 bits.
\<close>

type_synonym jint = int
type_synonym jboolean = "8 word"
type_synonym jbyte = "8 word"
type_synonym uint8_t = "8 word"
type_synonym jdouble = "64 word"
type_synonym jbyteArray = "jbyte list option"

definition JNI_FALSE :: jboolean where
  "JNI_FALSE = 0"

definition JNI_TRUE :: jboolean where
  "JNI_TRUE = 1"

datatype fatal =
    NullDereference
  | OutOfBounds
  | BadArrayLength
  | NullArray
  | FailedReturn

definition bindE :: "fatal + 'a \<Rightarrow> ('a \<Rightarrow> fatal + 'b) \<Rightarrow> fatal + 'b" where
  "bindE m f = (case m of Inl e \<Rightarrow> Inl e | Inr x \<Rightarrow> f x)"

text \<open>
  \<^verbatim>\<open>Result\<close> and \<^verbatim>\<open>Direction\<close> are enums of the service's interface; their
  declarations are not in this file. The source names one enumerator,
  \<^verbatim>\<open>Result::OK\<close>, so every other status is \<open>NOT_OK n\<close>; the cast
  \<^verbatim>\<open>(direction_t) direction\<close> keeps the integer it is given.
\<close>

datatype Result = OK | NOT_OK nat

datatype direction_t = Direction jint

text \<open>
  \<^verbatim>\<open>hardware::Return<T>\<close>: the value when the transaction reached the service
  and came back (for a method with a result callback, what the callback received), or
  a transport failure. \<^verbatim>\<open>isOk()\<close> asks which. Converting a failed
  \<^verbatim>\<open>Return<T>\<close> to \<^verbatim>\<open>T\<close> ends the process, and so does the
  destructor of a failed \<^verbatim>\<open>Return\<close> that nobody asked (libhidl's
  \<^verbatim>\<open>assertOk\<close> and \<^verbatim>\<open>~return_status\<close>); a dropped
  \<^verbatim>\<open>Return\<close> that did not fail leaves what its callback received.
\<close>

datatype 'a Return = Ok 'a | TransportError

definition Void :: "unit Return" where
  "Void = Ok ()"

definition isOk :: "'a Return \<Rightarrow> bool" where
  "isOk r = (case r of Ok _ \<Rightarrow> True | TransportError \<Rightarrow> False)"

definition Return_to_value :: "'a Return \<Rightarrow> fatal + 'a" where
  "Return_to_value r = (case r of Ok v \<Rightarrow> Inr v | TransportError \<Rightarrow> Inl FailedReturn)"

definition Return_dropped :: "'a Return \<Rightarrow> fatal + 'a" where
  "Return_dropped r = (case r of Ok v \<Rightarrow> Inr v | TransportError \<Rightarrow> Inl FailedReturn)"

subsection \<open>The Java runtime as the callback bridge sees it\<close>

text \<open>
  A \<^verbatim>\<open>JNIEnv\<close> belongs to one thread; the process has one \<^verbatim>\<open>JavaVM\<close>.
  Classes and method ids are kept symbolic: the class of a name, the static method of a
  class, a name and a signature. What native code does to the runtime is a trace.
\<close>

type_synonym thread = nat

datatype JavaVM = TheJavaVM

datatype JNIEnv = JNIEnv_of thread

datatype jclass = Class string

datatype jmethodID = StaticMethod jclass string string

datatype jni_event =
    Attached JavaVM thread
  | StaticVoidCall JNIEnv jclass jmethodID jint

definition GetJavaVM :: "JNIEnv \<Rightarrow> JavaVM" where
  "GetJavaVM env = TheJavaVM"

definition FindClass :: "JNIEnv \<Rightarrow> string \<Rightarrow> jclass" where
  "FindClass env name = Class name"

definition NewGlobalRef :: "JNIEnv \<Rightarrow> jclass \<Rightarrow> jclass" where
  "NewGlobalRef env c = c"

definition GetStaticMethodID :: "JNIEnv \<Rightarrow> jclass \<Rightarrow> string \<Rightarrow> string \<Rightarrow> jmethodID" where
  "GetStaticMethodID env c name sig = StaticMethod c name sig"

definition AttachCurrentThread :: "JavaVM \<Rightarrow> thread \<Rightarrow> jni_event list \<Rightarrow> JNIEnv \<times> jni_event list" where
  "AttachCurrentThread vm t rt = (JNIEnv_of t, rt @ [Attached vm t])"

definition CallStaticVoidMethod ::
  "JNIEnv \<Rightarrow> jclass \<Rightarrow> jmethodID \<Rightarrow> jint \<Rightarrow> jni_event list \<Rightarrow> jni_event list" where
  "CallStaticVoidMethod env c m arg rt = rt @ [StaticVoidCall env c m arg]"

subsection \<open>The callback bridge\<close>

text \<open>
  \<^verbatim>\<open>class Callback : public IOdroidThingsGpioCallback\<close>, with the constructor the
  file uses, \<^verbatim>\<open>Callback(JNIEnv*, int)\<close>. The fields are named as the source
  writes them, \<^verbatim>\<open>this->env\<close>, \<^verbatim>\<open>this->pin\<close>.
\<close>

record Callback =
  this_jvm :: JavaVM
  this_env :: JNIEnv
  this_pin :: jint
  thingsManagerClass :: jclass
  cb :: jmethodID

definition Callback_new :: "JNIEnv \<Rightarrow> jint \<Rightarrow> Callback" where
  "Callback_new env pin =
     (let localClass = FindClass env ''com/google/android/things/odroid/OdroidThingsManager'';
          globalClass = NewGlobalRef env localClass
      in \<lparr> this_jvm = GetJavaVM env,
           this_env = env,
           this_pin = pin,
           thingsManagerClass = globalClass,
           cb = GetStaticMethodID env globalClass ''doCallback'' ''(I)V'' \<rparr>)"

text \<open>
  \<^verbatim>\<open>doCallback()\<close> runs on the thread \<open>t\<close> of the service. It attaches that
  thread, which overwrites \<^verbatim>\<open>this->env\<close>, calls the static method and returns
  \<^verbatim>\<open>Void()\<close>.
\<close>

definition doCallback :: "Callback \<Rightarrow> thread \<Rightarrow> jni_event list \<Rightarrow> unit Return \<times> Callback \<times> jni_event list" where
  "doCallback this t rt =
     (case AttachCurrentThread (this_jvm this) t rt of (env', rt1) \<Rightarrow>
        let this1 = this\<lparr>this_env := env'\<rparr>;
            rt2 = CallStaticVoidMethod (this_env this1) (thingsManagerClass this1) (cb this1)
                    (this_pin this1) rt1
        in (Void, this1, rt2))"

subsection \<open>The service interface\<close>

text \<open>
  \<^verbatim>\<open>IOdroidThings\<close>: one field per method the file calls, with the arguments
  the file passes. A method with a result callback returns what the callback receives.
  \<open>'s\<close> is the state of the remote side.
\<close>

record 's IOdroidThings =
  getPinNameList :: "'s \<Rightarrow> string list Return \<times> 's"
  getListOf_hal :: "jint \<Rightarrow> 's \<Rightarrow> string list Return \<times> 's"
  setDirection :: "jint \<Rightarrow> direction_t \<Rightarrow> 's \<Rightarrow> unit Return \<times> 's"
  gpio_setValue :: "jint \<Rightarrow> bool \<Rightarrow> 's \<Rightarrow> unit Return \<times> 's"
  gpio_getValue :: "jint \<Rightarrow> 's \<Rightarrow> bool Return \<times> 's"
  gpio_setActiveType :: "jint \<Rightarrow> jint \<Rightarrow> 's \<Rightarrow> unit Return \<times> 's"
  gpio_setEdgeTriggerType :: "jint \<Rightarrow> jint \<Rightarrow> 's \<Rightarrow> unit Return \<times> 's"
  gpio_registerCallback :: "jint \<Rightarrow> Callback \<Rightarrow> 's \<Rightarrow> unit Return \<times> 's"
  gpio_unregisterCallback :: "jint \<Rightarrow> 's \<Rightarrow> unit Return \<times> 's"
  pwm_open :: "jint \<Rightarrow> 's \<Rightarrow> unit Return \<times> 's"
  pwm_close :: "jint \<Rightarrow> 's \<Rightarrow> unit Return \<times> 's"
  pwm_setEnable :: "jint \<Rightarrow> bool \<Rightarrow> 's \<Rightarrow> bool Return \<times> 's"
  pwm_setDutyCycle :: "jint \<Rightarrow> jdouble \<Rightarrow> 's \<Rightarrow> bool Return \<times> 's"
  pwm_setFrequency :: "jint \<Rightarrow> jdouble \<Rightarrow> 's \<Rightarrow> bool Return \<times> 's"
  i2c_open :: "jint \<Rightarrow> jint \<Rightarrow> jint \<Rightarrow> 's \<Rightarrow> unit Return \<times> 's"
  i2c_close :: "jint \<Rightarrow> 's \<Rightarrow> unit Return \<times> 's"
  i2c_readRegBuffer :: "jint \<Rightarrow> jint \<Rightarrow> jint \<Rightarrow> 's \<Rightarrow> (Result \<times> uint8_t list) Return \<times> 's"
  i2c_writeRegBuffer :: "jint \<Rightarrow> jint \<Rightarrow> uint8_t list \<Rightarrow> jint \<Rightarrow> 's \<Rightarrow> Result Return \<times> 's"
  uart_open :: "jint \<Rightarrow> 's \<Rightarrow> unit Return \<times> 's"
  uart_close :: "jint \<Rightarrow> 's \<Rightarrow> unit Return \<times> 's"
  uart_flush :: "jint \<Rightarrow> jint \<Rightarrow> 's \<Rightarrow> bool Return \<times> 's"
  uart_sendBreak :: "jint \<Rightarrow> jint \<Rightarrow> 's \<Rightarrow> bool Return \<times> 's"
  uart_setBaudrate :: "jint \<Rightarrow> jint \<Rightarrow> 's \<Rightarrow> bool Return \<times> 's"
  uart_setDataSize :: "jint \<Rightarrow> jint \<Rightarrow> 's \<Rightarrow> bool Return \<times> 's"
  uart_setHardwareFlowControl :: "jint \<Rightarrow> jint \<Rightarrow> 's \<Rightarrow> bool Return \<times> 's"
  uart_setParity :: "jint \<Rightarrow> jint \<Rightarrow> 's \<Rightarrow> bool Return \<times> 's"
  uart_setStopBits :: "jint \<Rightarrow> jint \<Rightarrow> 's \<Rightarrow> bool Return \<times> 's"
  uart_read :: "jint \<Rightarrow> jint \<Rightarrow> 's \<Rightarrow> (jint \<times> uint8_t list) Return \<times> 's"
  uart_write :: "jint \<Rightarrow> uint8_t list \<Rightarrow> jint \<Rightarrow> 's \<Rightarrow> jint Return \<times> 's"
  spi_open :: "jint \<Rightarrow> 's \<Rightarrow> unit Return \<times> 's"
  spi_close :: "jint \<Rightarrow> 's \<Rightarrow> unit Return \<times> 's"
  spi_setBitJustification :: "jint \<Rightarrow> jint \<Rightarrow> 's \<Rightarrow> bool Return \<times> 's"
  spi_setBitsPerWord :: "jint \<Rightarrow> jint \<Rightarrow> 's \<Rightarrow> bool Return \<times> 's"
  spi_setMode :: "jint \<Rightarrow> jint \<Rightarrow> 's \<Rightarrow> bool Return \<times> 's"
  spi_setCsChange :: "jint \<Rightarrow> bool \<Rightarrow> 's \<Rightarrow> bool Return \<times> 's"
  spi_setDelay :: "jint \<Rightarrow> jint \<Rightarrow> 's \<Rightarrow> bool Return \<times> 's"
  spi_setFrequency :: "jint \<Rightarrow> jint \<Rightarrow> 's \<Rightarrow> bool Return \<times> 's"
  spi_read :: "jint \<Rightarrow> jint \<Rightarrow> 's \<Rightarrow> (jint \<times> uint8_t list) Return \<times> 's"
  spi_transfer :: "jint \<Rightarrow> uint8_t list \<Rightarrow> jint \<Rightarrow> 's \<Rightarrow> (jint \<times> uint8_t list) Return \<times> 's"
  spi_write :: "jint \<Rightarrow> uint8_t list \<Rightarrow> jint \<Rightarrow> 's \<Rightarrow> bool Return \<times> 's"

subsection \<open>The service handle manager\<close>

text \<open>
  The process as this file sees it: the static \<^verbatim>\<open>OdroidThingHal::sOdroidThings\<close>
  (\<open>None\<close> is \<^verbatim>\<open>nullptr\<close>), the service manager (the answer to the
  \<open>k\<close>-th call of \<^verbatim>\<open>IOdroidThings::getService()\<close> and how many calls were
  made), the error log, and the state of the remote service.
\<close>

record 's world =
  sOdroidThings :: "'s IOdroidThings option"
  getService_answers :: "nat \<Rightarrow> 's IOdroidThings option"
  getService_calls :: nat
  logcat :: "(string \<times> string) list"
  remote :: 's

definition LOG_TAG :: string where
  "LOG_TAG = ''OdroidThings-JNI''"

definition ALOGE :: "string \<Rightarrow> 's world \<Rightarrow> 's world" where
  "ALOGE msg w = w\<lparr>logcat := logcat w @ [(LOG_TAG, msg)]\<rparr>"

definition getService :: "'s world \<Rightarrow> 's IOdroidThings option \<times> 's world" where
  "getService w =
     (getService_answers w (getService_calls w), w\<lparr>getService_calls := Suc (getService_calls w)\<rparr>)"

definition disassociate :: "'s world \<Rightarrow> 's world" where
  "disassociate w = w\<lparr>sOdroidThings := None\<rparr>"

definition associate :: "'s world \<Rightarrow> 's IOdroidThings option \<times> 's world" where
  "associate w =
     (case sOdroidThings w of
        None \<Rightarrow>
          (case getService w of (h, w1) \<Rightarrow>
             let w2 = w1\<lparr>sOdroidThings := h\<rparr>;
                 w3 = (case sOdroidThings w2 of
                         None \<Rightarrow> ALOGE ''Unable to get IOdroidThings interface.'' w2
                       | Some _ \<Rightarrow> w2)
             in (sOdroidThings w3, w3))
      | Some _ \<Rightarrow> (sOdroidThings w, w))"

text \<open>A sequence of calls of the handle manager, and the handles the acquisitions returned.\<close>

datatype handle_call = Acquire | Invalidate

fun handle_calls :: "handle_call list \<Rightarrow> 's world \<Rightarrow> 's IOdroidThings option list \<times> 's world" where
  "handle_calls [] w = ([], w)"
| "handle_calls (Acquire # cs) w =
     (case associate w of (h, w1) \<Rightarrow>
        case handle_calls cs w1 of (hs, w2) \<Rightarrow> (h # hs, w2))"
| "handle_calls (Invalidate # cs) w = handle_calls cs (disassociate w)"

subsection \<open>Calling the service, and the buffers\<close>

text \<open>
  \<^verbatim>\<open>hal->m(args)\<close>: calling through a null \<^verbatim>\<open>sp\<close> is undefined;
  otherwise the method runs on the remote state.
\<close>

definition hidl_call ::
  "'s IOdroidThings option \<Rightarrow> ('s IOdroidThings \<Rightarrow> 's \<Rightarrow> 'r Return \<times> 's) \<Rightarrow> 's world
     \<Rightarrow> fatal + ('r Return \<times> 's world)" where
  "hidl_call hal m w =
     (case hal of
        None \<Rightarrow> Inl NullDereference
      | Some h \<Rightarrow> (case m h (remote w) of (ret, s') \<Rightarrow> Inr (ret, w\<lparr>remote := s'\<rparr>)))"

text \<open>
  \<^verbatim>\<open>hidl_vec<uint8_t> v(length)\<close> and \<^verbatim>\<open>new uint8_t[length]\<close>: a negative
  \<^verbatim>\<open>int\<close> becomes a size no allocation can serve. The elements are written
  before they are read, so their first value does not matter; it is zero here.
\<close>

definition hidl_vec_of_size :: "jint \<Rightarrow> fatal + uint8_t list" where
  "hidl_vec_of_size n = (if n < 0 then Inl BadArrayLength else Inr (replicate (nat n) 0))"

definition new_uint8_t :: "jint \<Rightarrow> fatal + uint8_t list" where
  "new_uint8_t n = (if n < 0 then Inl BadArrayLength else Inr (replicate (nat n) 0))"

text \<open>
  \<^verbatim>\<open>GetByteArrayElements(buffer, NULL)\<close> gives the elements of the Java array
  (\<^verbatim>\<open>ReleaseByteArrayElements\<close> with \<^verbatim>\<open>JNI_ABORT\<close> frees them and writes
  nothing back). \<^verbatim>\<open>NewByteArray(n)\<close> is a fresh array of \<open>n\<close> zero bytes and
  \<^verbatim>\<open>SetByteArrayRegion(a, start, len, buf)\<close> overwrites a region of it.
\<close>

definition GetByteArrayElements :: "jbyteArray \<Rightarrow> fatal + uint8_t list" where
  "GetByteArrayElements array = (case array of None \<Rightarrow> Inl NullArray | Some b \<Rightarrow> Inr b)"

definition NewByteArray :: "jint \<Rightarrow> fatal + jbyte list" where
  "NewByteArray n = (if n < 0 then Inl BadArrayLength else Inr (replicate (nat n) 0))"

definition SetByteArrayRegion :: "jbyte list \<Rightarrow> jint \<Rightarrow> jint \<Rightarrow> uint8_t list \<Rightarrow> fatal + jbyte list" where
  "SetByteArrayRegion array start len buf =
     (if 0 \<le> start \<and> 0 \<le> len \<and> nat (start + len) \<le> length array \<and> nat len \<le> length buf
      then Inr (take (nat start) array @ take (nat len) buf @ drop (nat (start + len)) array)
      else Inl OutOfBounds)"

text \<open>
  The copy loop every buffer operation has,
  \<^verbatim>\<open>for (int i=0; i<length; i++) dst[i] = src[i];\<close>, from the value of
  \<^verbatim>\<open>i\<close> on. Neither \<^verbatim>\<open>hidl_vec::operator[]\<close> nor a raw pointer checks the
  index: an access past the end is undefined.
\<close>

function copy_loop :: "int \<Rightarrow> jint \<Rightarrow> uint8_t list \<Rightarrow> uint8_t list \<Rightarrow> fatal + uint8_t list" where
  "copy_loop i length' src dst =
     (if i < length' then
        (if 0 \<le> i \<and> nat i < length src \<and> nat i < length dst
         then copy_loop (i + 1) length' src (dst[nat i := src ! nat i])
         else Inl OutOfBounds)
      else Inr dst)"
  by pat_completeness auto
termination
  by (relation "measure (\<lambda>(i, n, src, dst). nat (n - i))") auto

declare copy_loop.simps [simp del]

text \<open>\<^verbatim>\<open>NewStringUTF(pin.c_str())\<close>: a C string ends at its first NUL.\<close>

definition NewStringUTF :: "string \<Rightarrow> string" where
  "NewStringUTF s = takeWhile (\<lambda>c. c \<noteq> CHR 0x00) s"

subsection \<open>The native methods\<close>

text \<open>
  Each takes the arguments of the C++ function after \<^verbatim>\<open>JNIEnv *env, jobject obj\<close>
  (\<^verbatim>\<open>env\<close> is kept where the function passes it on) and the process, and
  returns the Java value and the process, or the way the process ended.
\<close>

definition init :: "'s world \<Rightarrow> fatal + (unit \<times> 's world)" where
  "init w = (case associate w of (hal, w1) \<Rightarrow> Inr ((), w1))"

definition getPinName :: "'s world \<Rightarrow> fatal + (string list \<times> 's world)" where
  "getPinName w =
     (let resultArray = [] in
      case associate w of (hal, w1) \<Rightarrow>
        bindE (hidl_call hal (\<lambda>h. getPinNameList h) w1) (\<lambda>(ret, w2).
        bindE (Return_dropped ret) (\<lambda>pinNameList.
        Inr (foldl (\<lambda>array pin. array @ [NewStringUTF pin]) resultArray pinNameList, w2))))"

definition getListOf :: "jint \<Rightarrow> 's world \<Rightarrow> fatal + (string list \<times> 's world)" where
  "getListOf mode w =
     (let resultArray = [] in
      case associate w of (hal, w1) \<Rightarrow>
        bindE (hidl_call hal (\<lambda>h. getListOf_hal h mode) w1) (\<lambda>(ret, w2).
        bindE (Return_dropped ret) (\<lambda>pinList.
        Inr (foldl (\<lambda>array pin. array @ [NewStringUTF pin]) resultArray pinList, w2))))"

definition setGpioDirection :: "jint \<Rightarrow> jint \<Rightarrow> 's world \<Rightarrow> fatal + (unit \<times> 's world)" where
  "setGpioDirection pin direction w =
     (case associate w of (hal, w1) \<Rightarrow>
        bindE (hidl_call hal (\<lambda>h. setDirection h pin (Direction direction)) w1) (\<lambda>(ret, w2).
        bindE (Return_dropped ret) (\<lambda>_. Inr ((), w2))))"

definition setGpioValue :: "jint \<Rightarrow> jboolean \<Rightarrow> 's world \<Rightarrow> fatal + (unit \<times> 's world)" where
  "setGpioValue pin value w =
     (case associate w of (hal, w1) \<Rightarrow>
        bindE (hidl_call hal (\<lambda>h. gpio_setValue h pin (value = JNI_TRUE)) w1) (\<lambda>(ret, w2).
        bindE (Return_dropped ret) (\<lambda>_. Inr ((), w2))))"

definition getGpioValue :: "jint \<Rightarrow> 's world \<Rightarrow> fatal + (jboolean \<times> 's world)" where
  "getGpioValue pin w =
     (case associate w of (hal, w1) \<Rightarrow>
        bindE (hidl_call hal (\<lambda>h. gpio_getValue h pin) w1) (\<lambda>(ret, w2).
        bindE (Return_to_value ret) (\<lambda>result.
        Inr (if result then JNI_TRUE else JNI_FALSE, w2))))"

definition setGpioActiveType :: "jint \<Rightarrow> jint \<Rightarrow> 's world \<Rightarrow> fatal + (unit \<times> 's world)" where
  "setGpioActiveType pin activeType w =
     (case associate w of (hal, w1) \<Rightarrow>
        bindE (hidl_call hal (\<lambda>h. gpio_setActiveType h pin activeType) w1) (\<lambda>(ret, w2).
        bindE (Return_dropped ret) (\<lambda>_. Inr ((), w2))))"

definition setEdgeTriggerType :: "jint \<Rightarrow> jint \<Rightarrow> 's world \<Rightarrow> fatal + (unit \<times> 's world)" where
  "setEdgeTriggerType pin edgeTriggerType w =
     (case associate w of (hal, w1) \<Rightarrow>
        bindE (hidl_call hal (\<lambda>h. gpio_setEdgeTriggerType h pin edgeTriggerType) w1) (\<lambda>(ret, w2).
        bindE (Return_dropped ret) (\<lambda>_. Inr ((), w2))))"

definition registerCallback :: "JNIEnv \<Rightarrow> jint \<Rightarrow> 's world \<Rightarrow> fatal + (unit \<times> 's world)" where
  "registerCallback env pin w =
     (case associate w of (hal, w1) \<Rightarrow>
        let callback = Callback_new env pin in
        bindE (hidl_call hal (\<lambda>h. gpio_registerCallback h pin callback) w1) (\<lambda>(ret, w2).
        bindE (Return_dropped ret) (\<lambda>_. Inr ((), w2))))"

definition unregisterCallback :: "jint \<Rightarrow> 's world \<Rightarrow> fatal + (unit \<times> 's world)" where
  "unregisterCallback pin w =
     (case associate w of (hal, w1) \<Rightarrow>
        bindE (hidl_call hal (\<lambda>h. gpio_unregisterCallback h pin) w1) (\<lambda>(ret, w2).
        bindE (Return_dropped ret) (\<lambda>_. Inr ((), w2))))"

definition openPwm :: "jint \<Rightarrow> 's world \<Rightarrow> fatal + (unit \<times> 's world)" where
  "openPwm pin w =
     (case associate w of (hal, w1) \<Rightarrow>
        bindE (hidl_call hal (\<lambda>h. pwm_open h pin) w1) (\<lambda>(ret, w2).
        bindE (Return_dropped ret) (\<lambda>_. Inr ((), w2))))"

definition closePwm :: "jint \<Rightarrow> 's world \<Rightarrow> fatal + (unit \<times> 's world)" where
  "closePwm pin w =
     (case associate w of (hal, w1) \<Rightarrow>
        bindE (hidl_call hal (\<lambda>h. pwm_close h pin) w1) (\<lambda>(ret, w2).
        bindE (Return_dropped ret) (\<lambda>_. Inr ((), w2))))"

definition setPwmEnable :: "jint \<Rightarrow> jboolean \<Rightarrow> 's world \<Rightarrow> fatal + (jboolean \<times> 's world)" where
  "setPwmEnable pin enabled w =
     (case associate w of (hal, w1) \<Rightarrow>
        bindE (hidl_call hal (\<lambda>h. pwm_setEnable h pin (enabled = JNI_TRUE)) w1) (\<lambda>(ret, w2).
        bindE (Return_to_value ret) (\<lambda>result.
        Inr (if result then JNI_TRUE else JNI_FALSE, w2))))"

definition setDutyCycle :: "jint \<Rightarrow> jdouble \<Rightarrow> 's world \<Rightarrow> fatal + (jboolean \<times> 's world)" where
  "setDutyCycle pin cycle_rate w =
     (case associate w of (hal, w1) \<Rightarrow>
        bindE (hidl_call hal (\<lambda>h. pwm_setDutyCycle h pin cycle_rate) w1) (\<lambda>(ret, w2).
        bindE (Return_to_value ret) (\<lambda>result.
        Inr (if result then JNI_TRUE else JNI_FALSE, w2))))"

definition setFrequency :: "jint \<Rightarrow> jdouble \<Rightarrow> 's world \<Rightarrow> fatal + (jboolean \<times> 's world)" where
  "setFrequency pin frequency_hz w =
     (case associate w of (hal, w1) \<Rightarrow>
        bindE (hidl_call hal (\<lambda>h. pwm_setFrequency h pin frequency_hz) w1) (\<lambda>(ret, w2).
        bindE (Return_to_value ret) (\<lambda>result.
        Inr (if result then JNI_TRUE else JNI_FALSE, w2))))"

definition openI2c :: "jint \<Rightarrow> jint \<Rightarrow> jint \<Rightarrow> 's world \<Rightarrow> fatal + (unit \<times> 's world)" where
  "openI2c nameIdx address idx w =
     (case associate w of (hal, w1) \<Rightarrow>
        bindE (hidl_call hal (\<lambda>h. i2c_open h nameIdx address idx) w1) (\<lambda>(ret, w2).
        bindE (Return_dropped ret) (\<lambda>_. Inr ((), w2))))"

definition closeI2c :: "jint \<Rightarrow> 's world \<Rightarrow> fatal + (unit \<times> 's world)" where
  "closeI2c idx w =
     (case associate w of (hal, w1) \<Rightarrow>
        bindE (hidl_call hal (\<lambda>h. i2c_close h idx) w1) (\<lambda>(ret, w2).
        bindE (Return_dropped ret) (\<lambda>_. Inr ((), w2))))"

text \<open>
  In \<^verbatim>\<open>readI2cRegBuffer\<close> the callback keeps the bytes only when the service's
  \<^verbatim>\<open>Result\<close> is \<^verbatim>\<open>OK\<close>; the test after the call, \<^verbatim>\<open>ret.isOk()\<close>, is
  on the outer \<^verbatim>\<open>ret\<close>, the transport's \<^verbatim>\<open>Return<void>\<close>.
\<close>

definition readI2cRegBuffer :: "jint \<Rightarrow> jint \<Rightarrow> jint \<Rightarrow> 's world \<Rightarrow> fatal + (jbyte list \<times> 's world)" where
  "readI2cRegBuffer idx reg length' w =
     (case associate w of (hal, w1) \<Rightarrow>
        bindE (hidl_call hal (\<lambda>h. i2c_readRegBuffer h idx reg length') w1) (\<lambda>(ret, w2).
        let buffer = (case ret of
                        Ok (status, result) \<Rightarrow> (if status = OK then result else [])
                      | TransportError \<Rightarrow> [])
        in if isOk ret then
             bindE (new_uint8_t length') (\<lambda>retBuffer.
             bindE (copy_loop 0 length' buffer retBuffer) (\<lambda>retBuffer.
             bindE (NewByteArray length') (\<lambda>result.
             bindE (SetByteArrayRegion result 0 length' retBuffer) (\<lambda>result.
             Inr (result, w2)))))
           else
             bindE (NewByteArray 0) (\<lambda>result. Inr (result, w2))))"

definition writeI2cRegBuffer ::
  "jint \<Rightarrow> jint \<Rightarrow> jbyteArray \<Rightarrow> jint \<Rightarrow> 's world \<Rightarrow> fatal + (jboolean \<times> 's world)" where
  "writeI2cRegBuffer idx reg buffer length' w =
     (case associate w of (hal, w1) \<Rightarrow>
        bindE (hidl_vec_of_size length') (\<lambda>writeBuffer.
        bindE (GetByteArrayElements buffer) (\<lambda>data.
        bindE (copy_loop 0 length' data writeBuffer) (\<lambda>writeBuffer.
        bindE (hidl_call hal (\<lambda>h. i2c_writeRegBuffer h idx reg writeBuffer length') w1) (\<lambda>(r, w2).
        bindE (Return_to_value r) (\<lambda>ret.
        Inr (if ret = OK then JNI_TRUE else JNI_FALSE, w2)))))))"

definition openUart :: "jint \<Rightarrow> 's world \<Rightarrow> fatal + (unit \<times> 's world)" where
  "openUart idx w =
     (case associate w of (hal, w1) \<Rightarrow>
        bindE (hidl_call hal (\<lambda>h. uart_open h idx) w1) (\<lambda>(ret, w2).
        bindE (Return_dropped ret) (\<lambda>_. Inr ((), w2))))"

definition closeUart :: "jint \<Rightarrow> 's world \<Rightarrow> fatal + (unit \<times> 's world)" where
  "closeUart idx w =
     (case associate w of (hal, w1) \<Rightarrow>
        bindE (hidl_call hal (\<lambda>h. uart_close h idx) w1) (\<lambda>(ret, w2).
        bindE (Return_dropped ret) (\<lambda>_. Inr ((), w2))))"

definition flush :: "jint \<Rightarrow> jint \<Rightarrow> 's world \<Rightarrow> fatal + (jboolean \<times> 's world)" where
  "flush idx direction w =
     (case associate w of (hal, w1) \<Rightarrow>
        bindE (hidl_call hal (\<lambda>h. uart_flush h idx direction) w1) (\<lambda>(ret, w2).
        bindE (Return_to_value ret) (\<lambda>result.
        Inr (if result then JNI_TRUE else JNI_FALSE, w2))))"

definition sendBreak :: "jint \<Rightarrow> jint \<Rightarrow> 's world \<Rightarrow> fatal + (jboolean \<times> 's world)" where
  "sendBreak idx duration w =
     (case associate w of (hal, w1) \<Rightarrow>
        bindE (hidl_call hal (\<lambda>h. uart_sendBreak h idx duration) w1) (\<lambda>(ret, w2).
        bindE (Return_to_value ret) (\<lambda>result.
        Inr (if result then JNI_TRUE else JNI_FALSE, w2))))"

definition setBaudrate :: "jint \<Rightarrow> jint \<Rightarrow> 's world \<Rightarrow> fatal + (jboolean \<times> 's world)" where
  "setBaudrate idx rate w =
     (case associate w of (hal, w1) \<Rightarrow>
        bindE (hidl_call hal (\<lambda>h. uart_setBaudrate h idx rate) w1) (\<lambda>(ret, w2).
        bindE (Return_to_value ret) (\<lambda>result.
        Inr (if result then JNI_TRUE else JNI_FALSE, w2))))"

definition setDataSize :: "jint \<Rightarrow> jint \<Rightarrow> 's world \<Rightarrow> fatal + (jboolean \<times> 's world)" where
  "setDataSize idx size' w =
     (case associate w of (hal, w1) \<Rightarrow>
        bindE (hidl_call hal (\<lambda>h. uart_setDataSize h idx size') w1) (\<lambda>(ret, w2).
        bindE (Return_to_value ret) (\<lambda>result.
        Inr (if result then JNI_TRUE else JNI_FALSE, w2))))"

definition setHardwareFlowControl :: "jint \<Rightarrow> jint \<Rightarrow> 's world \<Rightarrow> fatal + (jboolean \<times> 's world)" where
  "setHardwareFlowControl idx mode w =
     (case associate w of (hal, w1) \<Rightarrow>
        bindE (hidl_call hal (\<lambda>h. uart_setHardwareFlowControl h idx mode) w1) (\<lambda>(ret, w2).
        bindE (Return_to_value ret) (\<lambda>result.
        Inr (if result then JNI_TRUE else JNI_FALSE, w2))))"

definition setParity :: "jint \<Rightarrow> jint \<Rightarrow> 's world \<Rightarrow> fatal + (jboolean \<times> 's world)" where
  "setParity idx mode w =
     (case associate w of (hal, w1) \<Rightarrow>
        bindE (hidl_call hal (\<lambda>h. uart_setParity h idx mode) w1) (\<lambda>(ret, w2).
        bindE (Return_to_value ret) (\<lambda>result.
        Inr (if result then JNI_TRUE else JNI_FALSE, w2))))"

definition setStopBits :: "jint \<Rightarrow> jint \<Rightarrow> 's world \<Rightarrow> fatal + (jboolean \<times> 's world)" where
  "setStopBits idx bits w =
     (case associate w of (hal, w1) \<Rightarrow>
        bindE (hidl_call hal (\<lambda>h. uart_setStopBits h idx bits) w1) (\<lambda>(ret, w2).
        bindE (Return_to_value ret) (\<lambda>result.
        Inr (if result then JNI_TRUE else JNI_FALSE, w2))))"

text \<open>
  In \<^verbatim>\<open>readUart\<close> the callback stores the length the service reports and keeps
  the bytes when it is positive; the \<^verbatim>\<open>Return\<close> of the call is dropped.
\<close>

definition readUart :: "jint \<Rightarrow> jint \<Rightarrow> 's world \<Rightarrow> fatal + (jbyte list \<times> 's world)" where
  "readUart idx length' w =
     (case associate w of (hal, w1) \<Rightarrow>
        bindE (hidl_call hal (\<lambda>h. uart_read h idx length') w1) (\<lambda>(ret, w2).
        bindE (Return_dropped ret) (\<lambda>(len, result).
        let retLength = len;
            buffer = (if len > 0 then result else [])
        in if retLength > 0 then
             bindE (new_uint8_t retLength) (\<lambda>retBuffer.
             bindE (copy_loop 0 retLength buffer retBuffer) (\<lambda>retBuffer.
             bindE (NewByteArray retLength) (\<lambda>retArray.
             bindE (SetByteArrayRegion retArray 0 retLength retBuffer) (\<lambda>retArray.
             Inr (retArray, w2)))))
           else
             bindE (NewByteArray 0) (\<lambda>retArray. Inr (retArray, w2)))))"

definition writeUart :: "jint \<Rightarrow> jbyteArray \<Rightarrow> jint \<Rightarrow> 's world \<Rightarrow> fatal + (jint \<times> 's world)" where
  "writeUart idx buffer length' w =
     (case associate w of (hal, w1) \<Rightarrow>
        bindE (hidl_vec_of_size length') (\<lambda>writeBuffer.
        bindE (GetByteArrayElements buffer) (\<lambda>data.
        bindE (copy_loop 0 length' data writeBuffer) (\<lambda>writeBuffer.
        bindE (hidl_call hal (\<lambda>h. uart_write h idx writeBuffer length') w1) (\<lambda>(r, w2).
        bindE (Return_to_value r) (\<lambda>ret.
        Inr (ret, w2)))))))"

definition openSpi :: "jint \<Rightarrow> 's world \<Rightarrow> fatal + (unit \<times> 's world)" where
  "openSpi idx w =
     (case associate w of (hal, w1) \<Rightarrow>
        bindE (hidl_call hal (\<lambda>h. spi_open h idx) w1) (\<lambda>(ret, w2).
        bindE (Return_dropped ret) (\<lambda>_. Inr ((), w2))))"

definition closeSpi :: "jint \<Rightarrow> 's world \<Rightarrow> fatal + (unit \<times> 's world)" where
  "closeSpi idx w =
     (case associate w of (hal, w1) \<Rightarrow>
        bindE (hidl_call hal (\<lambda>h. spi_close h idx) w1) (\<lambda>(ret, w2).
        bindE (Return_dropped ret) (\<lambda>_. Inr ((), w2))))"

definition setBitJustification :: "jint \<Rightarrow> jint \<Rightarrow> 's world \<Rightarrow> fatal + (jboolean \<times> 's world)" where
  "setBitJustification idx justification w =
     (case associate w of (hal, w1) \<Rightarrow>
        bindE (hidl_call hal (\<lambda>h. spi_setBitJustification h idx justification) w1) (\<lambda>(ret, w2).
        bindE (Return_to_value ret) (\<lambda>result.
        Inr (if result then JNI_TRUE else JNI_FALSE, w2))))"

definition setBitsPerWord :: "jint \<Rightarrow> jint \<Rightarrow> 's world \<Rightarrow> fatal + (jboolean \<times> 's world)" where
  "setBitsPerWord idx bits w =
     (case associate w of (hal, w1) \<Rightarrow>
        bindE (hidl_call hal (\<lambda>h. spi_setBitsPerWord h idx bits) w1) (\<lambda>(ret, w2).
        bindE (Return_to_value ret) (\<lambda>result.
        Inr (if result then JNI_TRUE else JNI_FALSE, w2))))"

definition setMode :: "jint \<Rightarrow> jint \<Rightarrow> 's world \<Rightarrow> fatal + (jboolean \<times> 's world)" where
  "setMode idx mode w =
     (case associate w of (hal, w1) \<Rightarrow>
        bindE (hidl_call hal (\<lambda>h. spi_setMode h idx mode) w1) (\<lambda>(ret, w2).
        bindE (Return_to_value ret) (\<lambda>result.
        Inr (if result then JNI_TRUE else JNI_FALSE, w2))))"

definition setCsChange :: "jint \<Rightarrow> jboolean \<Rightarrow> 's world \<Rightarrow> fatal + (jboolean \<times> 's world)" where
  "setCsChange idx cs w =
     (case associate w of (hal, w1) \<Rightarrow>
        bindE (hidl_call hal (\<lambda>h. spi_setCsChange h idx (cs = JNI_TRUE)) w1) (\<lambda>(ret, w2).
        bindE (Return_to_value ret) (\<lambda>result.
        Inr (if result then JNI_TRUE else JNI_FALSE, w2))))"

definition setDelay :: "jint \<Rightarrow> jint \<Rightarrow> 's world \<Rightarrow> fatal + (jboolean \<times> 's world)" where
  "setDelay idx delay w =
     (case associate w of (hal, w1) \<Rightarrow>
        bindE (hidl_call hal (\<lambda>h. spi_setDelay h idx delay) w1) (\<lambda>(ret, w2).
        bindE (Return_to_value ret) (\<lambda>result.
        Inr (if result then JNI_TRUE else JNI_FALSE, w2))))"

definition setFrequencySpi :: "jint \<Rightarrow> jint \<Rightarrow> 's world \<Rightarrow> fatal + (jboolean \<times> 's world)" where
  "setFrequencySpi idx frequency w =
     (case associate w of (hal, w1) \<Rightarrow>
        bindE (hidl_call hal (\<lambda>h. spi_setFrequency h idx frequency) w1) (\<lambda>(ret, w2).
        bindE (Return_to_value ret) (\<lambda>result.
        Inr (if result then JNI_TRUE else JNI_FALSE, w2))))"

text \<open>
  In \<^verbatim>\<open>readSpi\<close> and \<^verbatim>\<open>transferSpi\<close> the callback keeps the bytes and
  never looks at the length the service reports.
\<close>

definition readSpi :: "jint \<Rightarrow> jint \<Rightarrow> 's world \<Rightarrow> fatal + (jbyte list \<times> 's world)" where
  "readSpi idx length' w =
     (case associate w of (hal, w1) \<Rightarrow>
        bindE (hidl_call hal (\<lambda>h. spi_read h idx length') w1) (\<lambda>(ret, w2).
        let rxBuffer = (case ret of Ok (len, result) \<Rightarrow> result | TransportError \<Rightarrow> [])
        in if isOk ret then
             bindE (new_uint8_t length') (\<lambda>retBuffer.
             bindE (copy_loop 0 length' rxBuffer retBuffer) (\<lambda>retBuffer.
             bindE (NewByteArray length') (\<lambda>retArray.
             bindE (SetByteArrayRegion retArray 0 length' retBuffer) (\<lambda>retArray.
             Inr (retArray, w2)))))
           else
             bindE (NewByteArray 0) (\<lambda>retArray. Inr (retArray, w2))))"

definition transferSpi :: "jint \<Rightarrow> jbyteArray \<Rightarrow> jint \<Rightarrow> 's world \<Rightarrow> fatal + (jbyte list \<times> 's world)" where
  "transferSpi idx txArray length' w =
     (case associate w of (hal, w1) \<Rightarrow>
        bindE (hidl_vec_of_size length') (\<lambda>txBuffer.
        bindE (GetByteArrayElements txArray) (\<lambda>data.
        bindE (copy_loop 0 length' data txBuffer) (\<lambda>txBuffer.
        bindE (hidl_call hal (\<lambda>h. spi_transfer h idx txBuffer length') w1) (\<lambda>(ret, w2).
        let rxBuffer = (case ret of Ok (len, result) \<Rightarrow> result | TransportError \<Rightarrow> [])
        in if isOk ret then
             bindE (new_uint8_t length') (\<lambda>retBuffer.
             bindE (copy_loop 0 length' rxBuffer retBuffer) (\<lambda>retBuffer.
             bindE (NewByteArray length') (\<lambda>retArray.
             bindE (SetByteArrayRegion retArray 0 length' retBuffer) (\<lambda>retArray.
             Inr (retArray, w2)))))
           else
             bindE (NewByteArray 0) (\<lambda>retArray. Inr (retArray, w2)))))))"

definition writeSpi :: "jint \<Rightarrow> jbyteArray \<Rightarrow> jint \<Rightarrow> 's world \<Rightarrow> fatal + (jboolean \<times> 's world)" where
  "writeSpi idx txArray length' w =
     (case associate w of (hal, w1) \<Rightarrow>
        bindE (hidl_vec_of_size length') (\<lambda>txBuffer.
        bindE (GetByteArrayElements txArray) (\<lambda>data.
        bindE (copy_loop 0 length' data txBuffer) (\<lambda>txBuffer.
        bindE (hidl_call hal (\<lambda>h. spi_write h idx txBuffer length') w1) (\<lambda>(ret, w2).
        bindE (Return_to_value ret) (\<lambda>result.
        Inr (if result then JNI_TRUE else JNI_FALSE, w2)))))))"

subsection \<open>The method tables\<close>

text \<open>
  One constructor per entry of \<^verbatim>\<open>sManagerMethods\<close>, \<^verbatim>\<open>sGpioMethods\<close>,
  \<^verbatim>\<open>sPwmMethods\<close>, \<^verbatim>\<open>sI2cMethods\<close>, \<^verbatim>\<open>sUartMethods\<close> and
  \<^verbatim>\<open>sSpiMethod\<close>, named after the C++ function the entry points to and carrying
  its Java arguments; \<open>call_native\<close> is a call of that entry from the thread of
  \<open>env\<close>.
\<close>

datatype jvalue =
    JVoid
  | JBoolean jboolean
  | JInt jint
  | JByteArray "jbyte list"
  | JArrayList "string list"

datatype JNINativeMethod =
    N_init
  | N_getPinName
  | N_getListOf jint
  | N_setGpioDirection jint jint
  | N_setGpioValue jint jboolean
  | N_getGpioValue jint
  | N_setGpioActiveType jint jint
  | N_setEdgeTriggerType jint jint
  | N_registerCallback jint
  | N_unregisterCallback jint
  | N_openPwm jint
  | N_closePwm jint
  | N_setPwmEnable jint jboolean
  | N_setDutyCycle jint jdouble
  | N_setFrequency jint jdouble
  | N_openI2c jint jint jint
  | N_closeI2c jint
  | N_readI2cRegBuffer jint jint jint
  | N_writeI2cRegBuffer jint jint jbyteArray jint
  | N_openUart jint
  | N_closeUart jint
  | N_flush jint jint
  | N_sendBreak jint jint
  | N_setBaudrate jint jint
  | N_setDataSize jint jint
  | N_setHardwareFlowControl jint jint
  | N_setParity jint jint
  | N_setStopBits jint jint
  | N_readUart jint jint
  | N_writeUart jint jbyteArray jint
  | N_openSpi jint
  | N_closeSpi jint
  | N_setBitJustification jint jint
  | N_setBitsPerWord jint jint
  | N_setMode jint jint
  | N_setCsChange jint jboolean
  | N_setDelay jint jint
  | N_setFrequencySpi jint jint
  | N_readSpi jint jint
  | N_transferSpi jint jbyteArray jint
  | N_writeSpi jint jbyteArray jint

definition returning :: "('a \<Rightarrow> jvalue) \<Rightarrow> fatal + ('a \<times> 's world) \<Rightarrow> fatal + (jvalue \<times> 's world)" where
  "returning f m = bindE m (\<lambda>(v, w). Inr (f v, w))"

fun call_native :: "JNIEnv \<Rightarrow> JNINativeMethod \<Rightarrow> 's world \<Rightarrow> fatal + (jvalue \<times> 's world)" where
  "call_native env N_init w = returning (\<lambda>_. JVoid) (init w)"
| "call_native env N_getPinName w = returning JArrayList (getPinName w)"
| "call_native env (N_getListOf mode) w = returning JArrayList (getListOf mode w)"
| "call_native env (N_setGpioDirection pin direction) w = returning (\<lambda>_. JVoid) (setGpioDirection pin direction w)"
| "call_native env (N_setGpioValue pin v) w = returning (\<lambda>_. JVoid) (setGpioValue pin v w)"
| "call_native env (N_getGpioValue pin) w = returning JBoolean (getGpioValue pin w)"
| "call_native env (N_setGpioActiveType pin activeType) w = returning (\<lambda>_. JVoid) (setGpioActiveType pin activeType w)"
| "call_native env (N_setEdgeTriggerType pin edgeTriggerType) w = returning (\<lambda>_. JVoid) (setEdgeTriggerType pin edgeTriggerType w)"
| "call_native env (N_registerCallback pin) w = returning (\<lambda>_. JVoid) (registerCallback env pin w)"
| "call_native env (N_unregisterCallback pin) w = returning (\<lambda>_. JVoid) (unregisterCallback pin w)"
| "call_native env (N_openPwm pin) w = returning (\<lambda>_. JVoid) (openPwm pin w)"
| "call_native env (N_closePwm pin) w = returning (\<lambda>_. JVoid) (closePwm pin w)"
| "call_native env (N_setPwmEnable pin enabled) w = returning JBoolean (setPwmEnable pin enabled w)"
| "call_native env (N_setDutyCycle pin cycle_rate) w = returning JBoolean (setDutyCycle pin cycle_rate w)"
| "call_native env (N_setFrequency pin frequency_hz) w = returning JBoolean (setFrequency pin frequency_hz w)"
| "call_native env (N_openI2c nameIdx address idx) w = returning (\<lambda>_. JVoid) (openI2c nameIdx address idx w)"
| "call_native env (N_closeI2c idx) w = returning (\<lambda>_. JVoid) (closeI2c idx w)"
| "call_native env (N_readI2cRegBuffer idx reg n) w = returning JByteArray (readI2cRegBuffer idx reg n w)"
| "call_native env (N_writeI2cRegBuffer idx reg buffer n) w = returning JBoolean (writeI2cRegBuffer idx reg buffer n w)"
| "call_native env (N_openUart idx) w = returning (\<lambda>_. JVoid) (openUart idx w)"
| "call_native env (N_closeUart idx) w = returning (\<lambda>_. JVoid) (closeUart idx w)"
| "call_native env (N_flush idx direction) w = returning JBoolean (flush idx direction w)"
| "call_native env (N_sendBreak idx duration) w = returning JBoolean (sendBreak idx duration w)"
| "call_native env (N_setBaudrate idx rate) w = returning JBoolean (setBaudrate idx rate w)"
| "call_native env (N_setDataSize idx size') w = returning JBoolean (setDataSize idx size' w)"
| "call_native env (N_setHardwareFlowControl idx mode) w = returning JBoolean (setHardwareFlowControl idx mode w)"
| "call_native env (N_setParity idx mode) w = returning JBoolean (setParity idx mode w)"
| "call_native env (N_setStopBits idx bits) w = returning JBoolean (setStopBits idx bits w)"
| "call_native env (N_readUart idx n) w = returning JByteArray (readUart idx n w)"
| "call_native env (N_writeUart idx buffer n) w = returning JInt (writeUart idx buffer n w)"
| "call_native env (N_openSpi idx) w = returning (\<lambda>_. JVoid) (openSpi idx w)"
| "call_native env (N_closeSpi idx) w = returning (\<lambda>_. JVoid) (closeSpi idx w)"
| "call_native env (N_setBitJustification idx justification) w = returning JBoolean (setBitJustification idx justification w)"
| "call_native env (N_setBitsPerWord idx bits) w = returning JBoolean (setBitsPerWord idx bits w)"
| "call_native env (N_setMode idx mode) w = returning JBoolean (setMode idx mode w)"
| "call_native env (N_setCsChange idx cs) w = returning JBoolean (setCsChange idx cs w)"
| "call_native env (N_setDelay idx delay) w = returning JBoolean (setDelay idx delay w)"
| "call_native env (N_setFrequencySpi idx frequency) w = returning JBoolean (setFrequencySpi idx frequency w)"
| "call_native env (N_readSpi idx n) w = returning JByteArray (readSpi idx n w)"
| "call_native env (N_transferSpi idx txArray n) w = returning JByteArray (transferSpi idx txArray n w)"
| "call_native env (N_writeSpi idx txArray n) w = returning JBoolean (writeSpi idx txArray n w)"

subsection \<open>A service and a process for the examples\<close>

text \<open>
  The examples need a concrete service. \<open>fake_service\<close> is a test double, not part
  of the source: it stores the bytes written to a line and answers a read with what it
  stored (a status other than \<^verbatim>\<open>OK\<close>, or no bytes, for a line never written),
  keeps one callback per GPIO line, and accepts everything else. \<open>boot hal s\<close> is the
  process before its first call, with a service manager that always answers \<open>hal\<close>.
\<close>

record fake_state =
  i2c_regs :: "((jint \<times> jint) \<times> uint8_t list) list"
  uart_lines :: "(jint \<times> uint8_t list) list"
  spi_lines :: "(jint \<times> uint8_t list) list"
  gpio_callbacks :: "(jint \<times> Callback) list"

definition fake_empty :: fake_state where
  "fake_empty = \<lparr> i2c_regs = [], uart_lines = [], spi_lines = [], gpio_callbacks = [] \<rparr>"

definition fake_service :: "fake_state IOdroidThings" where
  "fake_service =
     \<lparr> getPinNameList = (\<lambda>s. (Ok [], s)),
       getListOf_hal = (\<lambda>mode s. (Ok [], s)),
       setDirection = (\<lambda>pin d s. (Ok (), s)),
       gpio_setValue = (\<lambda>pin v s. (Ok (), s)),
       gpio_getValue = (\<lambda>pin s. (Ok False, s)),
       gpio_setActiveType = (\<lambda>pin t s. (Ok (), s)),
       gpio_setEdgeTriggerType = (\<lambda>pin t s. (Ok (), s)),
       gpio_registerCallback = (\<lambda>pin c s.
         (Ok (), s\<lparr>gpio_callbacks := (pin, c) # filter (\<lambda>(p, _). p \<noteq> pin) (gpio_callbacks s)\<rparr>)),
       gpio_unregisterCallback = (\<lambda>pin s.
         (Ok (), s\<lparr>gpio_callbacks := filter (\<lambda>(p, _). p \<noteq> pin) (gpio_callbacks s)\<rparr>)),
       pwm_open = (\<lambda>pin s. (Ok (), s)),
       pwm_close = (\<lambda>pin s. (Ok (), s)),
       pwm_setEnable = (\<lambda>pin e s. (Ok True, s)),
       pwm_setDutyCycle = (\<lambda>pin d s. (Ok True, s)),
       pwm_setFrequency = (\<lambda>pin f s. (Ok True, s)),
       i2c_open = (\<lambda>nameIdx address idx s. (Ok (), s)),
       i2c_close = (\<lambda>idx s. (Ok (), s)),
       i2c_readRegBuffer = (\<lambda>idx reg n s.
         (case map_of (i2c_regs s) (idx, reg) of
            None \<Rightarrow> (Ok (NOT_OK 1, []), s)
          | Some b \<Rightarrow> (Ok (OK, take (nat n) b), s))),
       i2c_writeRegBuffer = (\<lambda>idx reg b n s.
         (Ok OK, s\<lparr>i2c_regs := ((idx, reg), b) # i2c_regs s\<rparr>)),
       uart_open = (\<lambda>idx s. (Ok (), s)),
       uart_close = (\<lambda>idx s. (Ok (), s)),
       uart_flush = (\<lambda>idx d s. (Ok True, s)),
       uart_sendBreak = (\<lambda>idx d s. (Ok True, s)),
       uart_setBaudrate = (\<lambda>idx r s. (Ok True, s)),
       uart_setDataSize = (\<lambda>idx n s. (Ok True, s)),
       uart_setHardwareFlowControl = (\<lambda>idx m s. (Ok True, s)),
       uart_setParity = (\<lambda>idx m s. (Ok True, s)),
       uart_setStopBits = (\<lambda>idx b s. (Ok True, s)),
       uart_read = (\<lambda>idx n s.
         (case map_of (uart_lines s) idx of
            None \<Rightarrow> (Ok (0, []), s)
          | Some b \<Rightarrow> (Ok (int (length (take (nat n) b)), take (nat n) b), s))),
       uart_write = (\<lambda>idx b n s. (Ok n, s\<lparr>uart_lines := (idx, b) # uart_lines s\<rparr>)),
       spi_open = (\<lambda>idx s. (Ok (), s)),
       spi_close = (\<lambda>idx s. (Ok (), s)),
       spi_setBitJustification = (\<lambda>idx j s. (Ok True, s)),
       spi_setBitsPerWord = (\<lambda>idx b s. (Ok True, s)),
       spi_setMode = (\<lambda>idx m s. (Ok True, s)),
       spi_setCsChange = (\<lambda>idx c s. (Ok True, s)),
       spi_setDelay = (\<lambda>idx d s. (Ok True, s)),
       spi_setFrequency = (\<lambda>idx f s. (Ok True, s)),
       spi_read = (\<lambda>idx n s.
         (case map_of (spi_lines s) idx of
            None \<Rightarrow> (Ok (0, []), s)
          | Some b \<Rightarrow> (Ok (int (length (take (nat n) b)), take (nat n) b), s))),
       spi_transfer = (\<lambda>idx b n s. (Ok (n, b), s\<lparr>spi_lines := (idx, b) # spi_lines s\<rparr>)),
       spi_write = (\<lambda>idx b n s. (Ok True, s\<lparr>spi_lines := (idx, b) # spi_lines s\<rparr>)) \<rparr>"

definition boot :: "'s IOdroidThings option \<Rightarrow> 's \<Rightarrow> 's world" where
  "boot hal s =
     \<lparr> sOdroidThings = None,
       getService_answers = (\<lambda>k. hal),
       getService_calls = 0,
       logcat = [],
       remote = s \<rparr>"

text \<open>\<open>fake_process\<close> is the process that starts with \<open>fake_service\<close>.\<close>

definition fake_process :: "fake_state world" where
  "fake_process = boot (Some fake_service) fake_empty"

subsection \<open>Names used in the statements\<close>

text \<open>
  The error line of a failed acquisition; the number of acquisitions in a sequence of
  calls; the fixed entry point of the bridge; and the arguments for which the copy of a
  Java array stays inside it (a non-null array and a length between 0 and its size).
\<close>

definition unable_msg :: "string \<times> string" where
  "unable_msg = (LOG_TAG, ''Unable to get IOdroidThings interface.'')"

definition acquisitions :: "handle_call list \<Rightarrow> nat" where
  "acquisitions cs = length (filter (\<lambda>c. c = Acquire) cs)"

definition OdroidThingsManager :: jclass where
  "OdroidThingsManager = Class ''com/google/android/things/odroid/OdroidThingsManager''"

definition entry_point :: jmethodID where
  "entry_point = StaticMethod OdroidThingsManager ''doCallback'' ''(I)V''"

fun arguments_in_range :: "JNINativeMethod \<Rightarrow> bool" where
  "arguments_in_range (N_writeI2cRegBuffer idx reg buffer n) =
     (case buffer of None \<Rightarrow> False | Some b \<Rightarrow> 0 \<le> n \<and> nat n \<le> length b)"
| "arguments_in_range (N_writeUart idx buffer n) =
     (case buffer of None \<Rightarrow> False | Some b \<Rightarrow> 0 \<le> n \<and> nat n \<le> length b)"
| "arguments_in_range (N_transferSpi idx txArray n) =
     (case txArray of None \<Rightarrow> False | Some b \<Rightarrow> 0 \<le> n \<and> nat n \<le> length b)"
| "arguments_in_range (N_writeSpi idx txArray n) =
     (case txArray of None \<Rightarrow> False | Some b \<Rightarrow> 0 \<le> n \<and> nat n \<le> length b)"
| "arguments_in_range _ = True"

section \<open>Properties\<close>

subsection \<open>Helper facts: the handle manager\<close>

lemma associate_stored:
  "sOdroidThings w = Some h \<Longrightarrow> associate w = (Some h, w)"
  by (simp add: associate_def)

lemma associate_fresh:
  "sOdroidThings w = None \<Longrightarrow>
   associate w =
     (case getService_answers w (getService_calls w) of
        None \<Rightarrow> (None, w\<lparr>getService_calls := Suc (getService_calls w),
                          logcat := logcat w @ [(LOG_TAG, ''Unable to get IOdroidThings interface.'')]\<rparr>)
      | Some h \<Rightarrow> (Some h, w\<lparr>sOdroidThings := Some h, getService_calls := Suc (getService_calls w)\<rparr>))"
  by (simp add: associate_def getService_def ALOGE_def split: option.splits)

lemma associate_stores_result:
  "sOdroidThings (snd (associate w)) = fst (associate w)"
  by (cases "sOdroidThings w")
     (simp_all add: associate_stored associate_fresh split: option.splits)

lemma associate_pair:
  "fst (associate w) = Some h \<Longrightarrow> associate w = (Some h, snd (associate w))"
  by (metis prod.collapse)

lemma stored_after_associate:
  "fst (associate w) = Some h \<Longrightarrow> sOdroidThings (snd (associate w)) = Some h"
  by (simp add: associate_stores_result)

lemma associate_after_call:
  "sOdroidThings w = Some h \<Longrightarrow> associate (w\<lparr>remote := s\<rparr>) = (Some h, w\<lparr>remote := s\<rparr>)"
  by (simp add: associate_def)

lemma disassociate_idle:
  "sOdroidThings w = None \<Longrightarrow> disassociate w = w"
  by (simp add: disassociate_def)

lemma handle_calls_unavailable:
  "sOdroidThings w = None \<Longrightarrow> (\<And>k. getService_answers w k = None) \<Longrightarrow>
   handle_calls cs w =
     (replicate (acquisitions cs) None,
      w\<lparr>getService_calls := getService_calls w + acquisitions cs,
        logcat := logcat w @ replicate (acquisitions cs) unable_msg\<rparr>)"
proof (induction cs arbitrary: w)
  case Nil
  then show ?case by (simp add: acquisitions_def)
next
  case (Cons c cs)
  show ?case
  proof (cases c)
    case Acquire
    let ?w1 = "w\<lparr>getService_calls := Suc (getService_calls w), logcat := logcat w @ [unable_msg]\<rparr>"
    have a: "associate w = (None, ?w1)"
      using Cons.prems by (simp add: associate_fresh unable_msg_def)
    have "handle_calls cs ?w1 =
       (replicate (acquisitions cs) None,
        ?w1\<lparr>getService_calls := getService_calls ?w1 + acquisitions cs,
          logcat := logcat ?w1 @ replicate (acquisitions cs) unable_msg\<rparr>)"
      by (rule Cons.IH) (simp_all add: Cons.prems)
    with a Acquire show ?thesis
      by (simp add: acquisitions_def replicate_app_Cons_same)
  next
    case Invalidate
    with Cons.prems Cons.IH [of w] show ?thesis
      by (simp add: disassociate_idle acquisitions_def)
  qed
qed

lemma handle_calls_length:
  "length (fst (handle_calls cs w)) = acquisitions cs"
proof (induction cs arbitrary: w)
  case Nil
  show ?case by (simp add: acquisitions_def)
next
  case (Cons c cs)
  show ?case
  proof (cases c)
    case Acquire
    obtain h w1 where a: "associate w = (h, w1)" by (cases "associate w")
    obtain hs w2 where r: "handle_calls cs w1 = (hs, w2)" by (cases "handle_calls cs w1")
    from Cons.IH [of w1] r have "length hs = acquisitions cs" by simp
    with Acquire a r show ?thesis by (simp add: acquisitions_def)
  next
    case Invalidate
    with Cons.IH [of "disassociate w"] show ?thesis by (simp add: acquisitions_def)
  qed
qed

lemma associate_boot:
  "associate (boot (Some h) s) =
     (Some h, (boot (Some h) s)\<lparr>sOdroidThings := Some h, getService_calls := 1\<rparr>)"
  by (simp add: associate_def getService_def boot_def)

lemma remote_boot:
  "remote (boot hal s) = s"
  by (simp add: boot_def)

lemma associate_fake_process:
  "associate fake_process =
     (Some fake_service, fake_process\<lparr>sOdroidThings := Some fake_service, getService_calls := 1\<rparr>)"
  by (simp add: fake_process_def associate_boot)

lemma remote_fake_process:
  "remote fake_process = fake_empty"
  by (simp add: fake_process_def remote_boot)

subsection \<open>Helper facts: the copy loop and the calls\<close>

lemma copy_loop_in_range:
  "0 \<le> i \<Longrightarrow> nat n \<le> length src \<Longrightarrow> nat n \<le> length dst \<Longrightarrow>
   \<exists>r. copy_loop i n src dst = Inr r \<and> length r = length dst
       \<and> (\<forall>j<length dst. r ! j = (if nat i \<le> j \<and> j < nat n then src ! j else dst ! j))"
proof (induction i n src dst rule: copy_loop.induct)
  case (1 i n src dst)
  show ?case
  proof (cases "i < n")
    case False
    then have "copy_loop i n src dst = Inr dst"
      by (simp add: copy_loop.simps)
    moreover from False have "nat n \<le> nat i"
      by simp
    ultimately show ?thesis by auto
  next
    case True
    with "1.prems" have inb: "0 \<le> i \<and> nat i < length src \<and> nat i < length dst"
      by auto
    let ?dst = "dst[nat i := src ! nat i]"
    from "1.prems" have "0 \<le> i + 1" "nat n \<le> length src" "nat n \<le> length ?dst"
      by simp_all
    with "1.IH" [OF True inb] obtain r where
      r: "copy_loop (i + 1) n src ?dst = Inr r" "length r = length ?dst"
         "\<forall>j<length ?dst. r ! j = (if nat (i + 1) \<le> j \<and> j < nat n then src ! j else ?dst ! j)"
      by blast
    from True inb r(1) have step: "copy_loop i n src dst = Inr r"
      by (subst copy_loop.simps) simp
    have suc: "nat (i + 1) = Suc (nat i)"
      using "1.prems"(1) by simp
    have "\<forall>j<length dst. r ! j = (if nat i \<le> j \<and> j < nat n then src ! j else dst ! j)"
    proof (intro allI impI)
      fix j assume j: "j < length dst"
      show "r ! j = (if nat i \<le> j \<and> j < nat n then src ! j else dst ! j)"
      proof (cases "j = nat i")
        case True
        with j r(3) suc inb \<open>i < n\<close> show ?thesis by simp
      next
        case False
        with j r(3) suc show ?thesis by (auto simp: nth_list_update)
      qed
    qed
    with step r(2) show ?thesis by simp
  qed
qed

lemma copy_loop_fills:
  assumes "0 \<le> n" "nat n \<le> length src"
  shows "copy_loop 0 n src (replicate (nat n) 0) = Inr (take (nat n) src)"
proof -
  from copy_loop_in_range [of 0 n src "replicate (nat n) 0"] assms
  obtain r where r: "copy_loop 0 n src (replicate (nat n) 0) = Inr r" "length r = nat n"
    "\<forall>j<nat n. r ! j = src ! j"
    by auto
  have "r = take (nat n) src"
    using r(2,3) assms(2) by (intro nth_equalityI) simp_all
  with r(1) show ?thesis by simp
qed

lemma copy_loop_short_source:
  "0 \<le> i \<Longrightarrow> i < n \<Longrightarrow> length src < nat n \<Longrightarrow> nat i \<le> length src \<Longrightarrow>
   copy_loop i n src dst = Inl OutOfBounds"
proof (induction i n src dst rule: copy_loop.induct)
  case (1 i n src dst)
  show ?case
  proof (cases "0 \<le> i \<and> nat i < length src \<and> nat i < length dst")
    case False
    with "1.prems" show ?thesis by (subst copy_loop.simps) auto
  next
    case True
    with "1.prems" have "i + 1 < n" by linarith
    moreover from True have "nat (i + 1) \<le> length src" by linarith
    ultimately have "copy_loop (i + 1) n src (dst[nat i := src ! nat i]) = Inl OutOfBounds"
      using "1.IH" [OF "1.prems"(2) True] "1.prems" by simp
    with "1.prems" True show ?thesis by (subst copy_loop.simps) simp
  qed
qed

lemma copy_loop_empty_source:
  "0 < n \<Longrightarrow> copy_loop 0 n [] dst = Inl OutOfBounds"
  by (rule copy_loop_short_source) simp_all

lemma NewByteArray_0:
  "NewByteArray 0 = Inr []"
  by (simp add: NewByteArray_def)

lemma marshal_in:
  assumes "0 \<le> n" "nat n \<le> length b"
  shows "bindE (hidl_vec_of_size n) (\<lambda>v.
           bindE (GetByteArrayElements (Some b)) (\<lambda>data.
           bindE (copy_loop 0 n data v) k)) = k (take (nat n) b)"
  using assms by (simp add: hidl_vec_of_size_def GetByteArrayElements_def bindE_def copy_loop_fills)

lemma marshal_out:
  assumes "0 \<le> n" "nat n \<le> length buf"
  shows "bindE (new_uint8_t n) (\<lambda>retBuffer.
           bindE (copy_loop 0 n buf retBuffer) (\<lambda>retBuffer.
           bindE (NewByteArray n) (\<lambda>result.
           bindE (SetByteArrayRegion result 0 n retBuffer) (\<lambda>result. Inr (result, w)))))
         = Inr (take (nat n) buf, w)"
  using assms
  by (simp add: new_uint8_t_def NewByteArray_def SetByteArrayRegion_def bindE_def copy_loop_fills)

lemma call_to_value:
  "bindE (hidl_call (Some h) m w1) (\<lambda>(r, w2). bindE (Return_to_value r) (\<lambda>v. k v w2)) =
     (case m h (remote w1) of
        (r, s') \<Rightarrow>
          (case r of Ok v \<Rightarrow> k v (w1\<lparr>remote := s'\<rparr>) | TransportError \<Rightarrow> Inl FailedReturn))"
  by (cases "m h (remote w1)")
     (simp add: hidl_call_def bindE_def Return_to_value_def split: Return.splits)

lemma call_dropped:
  "bindE (hidl_call (Some h) m w1) (\<lambda>(r, w2). bindE (Return_dropped r) (\<lambda>v. k v w2)) =
     (case m h (remote w1) of
        (r, s') \<Rightarrow>
          (case r of Ok v \<Rightarrow> k v (w1\<lparr>remote := s'\<rparr>) | TransportError \<Rightarrow> Inl FailedReturn))"
  by (cases "m h (remote w1)")
     (simp add: hidl_call_def bindE_def Return_dropped_def split: Return.splits)

lemma writeI2cRegBuffer_forward:
  assumes "fst (associate w) = Some h" and "0 \<le> n" and "nat n \<le> length b"
  shows "writeI2cRegBuffer idx reg (Some b) n w =
         (case i2c_writeRegBuffer h idx reg (take (nat n) b) n (remote (snd (associate w))) of
            (r, s') \<Rightarrow>
              (case r of
                 Ok ret \<Rightarrow> Inr (if ret = OK then JNI_TRUE else JNI_FALSE,
                                (snd (associate w))\<lparr>remote := s'\<rparr>)
               | TransportError \<Rightarrow> Inl FailedReturn))"
  unfolding writeI2cRegBuffer_def
  by (subst associate_pair [OF assms(1)]) (simp add: marshal_in [OF assms(2,3)] call_to_value)

lemma writeUart_forward:
  assumes "fst (associate w) = Some h" and "0 \<le> n" and "nat n \<le> length b"
  shows "writeUart idx (Some b) n w =
         (case uart_write h idx (take (nat n) b) n (remote (snd (associate w))) of
            (r, s') \<Rightarrow>
              (case r of
                 Ok ret \<Rightarrow> Inr (ret, (snd (associate w))\<lparr>remote := s'\<rparr>)
               | TransportError \<Rightarrow> Inl FailedReturn))"
  unfolding writeUart_def
  by (subst associate_pair [OF assms(1)]) (simp add: marshal_in [OF assms(2,3)] call_to_value)

lemma writeSpi_forward:
  assumes "fst (associate w) = Some h" and "0 \<le> n" and "nat n \<le> length b"
  shows "writeSpi idx (Some b) n w =
         (case spi_write h idx (take (nat n) b) n (remote (snd (associate w))) of
            (r, s') \<Rightarrow>
              (case r of
                 Ok result \<Rightarrow> Inr (if result then JNI_TRUE else JNI_FALSE,
                                   (snd (associate w))\<lparr>remote := s'\<rparr>)
               | TransportError \<Rightarrow> Inl FailedReturn))"
  unfolding writeSpi_def
  by (subst associate_pair [OF assms(1)]) (simp add: marshal_in [OF assms(2,3)] call_to_value)

lemma readI2cRegBuffer_status_not_OK:
  assumes "fst (associate w) = Some h"
    and "i2c_readRegBuffer h idx reg n (remote (snd (associate w))) = (Ok (NOT_OK k, result), s')"
    and "0 < n"
  shows "readI2cRegBuffer idx reg n w = Inl OutOfBounds"
proof -
  from assms(3) have pos: "\<not> n < 0"
    by simp
  show ?thesis
    unfolding readI2cRegBuffer_def
    by (subst associate_pair [OF assms(1)])
       (simp add: hidl_call_def bindE_def assms(2) isOk_def new_uint8_t_def pos
          copy_loop_empty_source [OF assms(3)])
qed

lemma readI2cRegBuffer_transport_failure:
  assumes "fst (associate w) = Some h"
    and "i2c_readRegBuffer h idx reg n (remote (snd (associate w))) = (TransportError, s')"
  shows "readI2cRegBuffer idx reg n w = Inr ([], (snd (associate w))\<lparr>remote := s'\<rparr>)"
  unfolding readI2cRegBuffer_def
  by (subst associate_pair [OF assms(1)])
     (simp add: hidl_call_def bindE_def assms(2) isOk_def NewByteArray_0)

lemma null_call:
  "bindE (hidl_call None m w) k = Inl NullDereference"
  by (simp add: hidl_call_def bindE_def)

lemma returning_Inl:
  "returning f (Inl e) = Inl e"
  by (simp add: returning_def bindE_def)

lemma isl_returning:
  "isl (returning f m) = isl m"
  by (cases m) (simp_all add: returning_def bindE_def split: prod.splits)

lemma isl_bindE:
  "(\<And>x. isl (k x)) \<Longrightarrow> isl (bindE m k)"
  by (cases m) (simp_all add: bindE_def)

lemma marshal_in_then_null:
  "isl (bindE a (\<lambda>v. bindE b (\<lambda>data. bindE (c data v) (\<lambda>v'. Inl e))))"
  by (rule isl_bindE, rule isl_bindE, rule isl_bindE, simp)

lemma null_handle_no_return:
  assumes "associate w = (None, w1)" and "m \<noteq> N_init"
  shows "isl (call_native env m w)"
  using assms(2)
  by (cases m)
     (simp_all add: isl_returning assms(1) null_call marshal_in_then_null Let_def
        getPinName_def getListOf_def setGpioDirection_def setGpioValue_def getGpioValue_def
        setGpioActiveType_def setEdgeTriggerType_def registerCallback_def unregisterCallback_def
        openPwm_def closePwm_def setPwmEnable_def setDutyCycle_def setFrequency_def
        openI2c_def closeI2c_def readI2cRegBuffer_def writeI2cRegBuffer_def
        openUart_def closeUart_def flush_def sendBreak_def setBaudrate_def setDataSize_def
        setHardwareFlowControl_def setParity_def setStopBits_def readUart_def writeUart_def
        openSpi_def closeSpi_def setBitJustification_def setBitsPerWord_def setMode_def
        setCsChange_def setDelay_def setFrequencySpi_def readSpi_def transferSpi_def writeSpi_def)

lemma null_handle_dereferenced:
  assumes "associate w = (None, w1)" and "m \<noteq> N_init" and "arguments_in_range m"
  shows "call_native env m w = Inl NullDereference"
  using assms(2,3)
  by (cases m)
     (auto simp add: returning_Inl assms(1) null_call marshal_in Let_def
        getPinName_def getListOf_def setGpioDirection_def setGpioValue_def getGpioValue_def
        setGpioActiveType_def setEdgeTriggerType_def registerCallback_def unregisterCallback_def
        openPwm_def closePwm_def setPwmEnable_def setDutyCycle_def setFrequency_def
        openI2c_def closeI2c_def readI2cRegBuffer_def writeI2cRegBuffer_def
        openUart_def closeUart_def flush_def sendBreak_def setBaudrate_def setDataSize_def
        setHardwareFlowControl_def setParity_def setStopBits_def readUart_def writeUart_def
        openSpi_def closeSpi_def setBitJustification_def setBitsPerWord_def setMode_def
        setCsChange_def setDelay_def setFrequencySpi_def readSpi_def transferSpi_def writeSpi_def
        split: option.splits)

subsection \<open>C1: acquisitions are identity-stable until invalidated\<close>

text \<open>
  Claim C1. When an acquisition returns a connection \<open>h\<close>, the next acquisition with
  no invalidation between returns the same \<open>h\<close> and leaves the process as it is: the
  service manager is not asked again. After \<^verbatim>\<open>disassociate()\<close> the stored handle
  is null, and the next acquisition asks the service manager once more and returns its
  answer.
\<close>

theorem acquire_identity_stable:
  "(fst (associate w) = Some h \<longrightarrow>
      associate (snd (associate w)) = (Some h, snd (associate w)))
   \<and> sOdroidThings (disassociate w) = None
   \<and> fst (associate (disassociate w)) = getService_answers w (getService_calls w)
   \<and> getService_calls (snd (associate (disassociate w))) = Suc (getService_calls w)"
proof (intro conjI impI)
  assume "fst (associate w) = Some h"
  then have "sOdroidThings (snd (associate w)) = Some h"
    by (simp add: associate_stores_result)
  then show "associate (snd (associate w)) = (Some h, snd (associate w))"
    by (rule associate_stored)
next
  show "sOdroidThings (disassociate w) = None"
    by (simp add: disassociate_def)
next
  show "fst (associate (disassociate w)) = getService_answers w (getService_calls w)"
    by (simp add: associate_fresh disassociate_def split: option.splits)
next
  show "getService_calls (snd (associate (disassociate w))) = Suc (getService_calls w)"
    by (simp add: associate_fresh disassociate_def split: option.splits)
qed

text \<open>
  Claim C1 at a process whose service manager has \<open>fake_service\<close>: two acquisitions
  make one call of \<^verbatim>\<open>getService()\<close>, an invalidation and a third acquisition
  make the second.
\<close>

theorem acquire_identity_stable_witness:
  "fst (associate (boot (Some fake_service) fake_empty)) = Some fake_service
   \<and> associate (snd (associate (boot (Some fake_service) fake_empty)))
       = (Some fake_service, snd (associate (boot (Some fake_service) fake_empty)))
   \<and> getService_calls (snd (associate (snd (associate (boot (Some fake_service) fake_empty))))) = 1
   \<and> sOdroidThings (disassociate (snd (associate (boot (Some fake_service) fake_empty)))) = None
   \<and> getService_calls (snd (associate (disassociate (snd (associate (boot (Some fake_service) fake_empty)))))) = 2"
proof -
  have first: "fst (associate (boot (Some fake_service) fake_empty)) = Some fake_service"
    by (simp add: associate_def getService_def boot_def)
  have calls: "getService_calls (snd (associate (boot (Some fake_service) fake_empty))) = 1"
    by (simp add: associate_def getService_def boot_def)
  from first calls
    acquire_identity_stable [of "boot (Some fake_service) fake_empty" fake_service]
    acquire_identity_stable [of "snd (associate (boot (Some fake_service) fake_empty))" fake_service]
  show ?thesis by simp
qed

subsection \<open>C2: a failed I2C read is not answered with an empty array\<close>

text \<open>
  Claim C2 does not hold of \<^verbatim>\<open>readI2cRegBuffer\<close>. The service answers the read
  of four bytes with a status other than \<^verbatim>\<open>OK\<close>; the transport succeeded, so
  the function takes the branch that copies four bytes out of the buffer it left empty,
  and reads past its end. The empty array is returned only when the transport fails
  (\<open>readI2cRegBuffer_transport_failure\<close>).
\<close>

theorem i2c_read_failure_is_not_empty_array:
  "i2c_readRegBuffer fake_service 0 0 4 (remote (snd (associate fake_process)))
     = (Ok (NOT_OK 1, []), fake_empty)
   \<and> readI2cRegBuffer 0 0 4 fake_process = Inl OutOfBounds"
proof -
  have a: "fst (associate fake_process) = Some fake_service"
    by (simp add: associate_fake_process)
  have r: "remote (snd (associate fake_process)) = fake_empty"
    by (simp add: associate_fake_process remote_fake_process)
  have s: "i2c_readRegBuffer fake_service 0 0 4 (remote (snd (associate fake_process)))
     = (Ok (NOT_OK 1, []), fake_empty)"
    unfolding r by (simp add: fake_service_def fake_empty_def)
  from readI2cRegBuffer_status_not_OK [OF a s] s show ?thesis
    by simp
qed

subsection \<open>C3: the callback bridge delivers its own line\<close>

text \<open>
  Claim C3. A bridge built for line \<open>p\<close>, invoked on thread \<open>t\<close>, first attaches
  \<open>t\<close> and then calls the one static method
  \<^verbatim>\<open>OdroidThingsManager.doCallback(I)V\<close> with \<open>p\<close>, and returns
  \<^verbatim>\<open>Void()\<close>, which carries no value and no error. Two bridges invoked one after
  the other each deliver their own line. \<^verbatim>\<open>registerCallback\<close> for line \<open>p\<close>
  hands the service the bridge built for \<open>p\<close>.
\<close>

theorem bridge_delivers_own_line:
  "doCallback (Callback_new env p) t rt =
     (Ok (), (Callback_new env p)\<lparr>this_env := JNIEnv_of t\<rparr>,
      rt @ [Attached TheJavaVM t, StaticVoidCall (JNIEnv_of t) OdroidThingsManager entry_point p])
   \<and> snd (snd (doCallback (Callback_new env q) t' (snd (snd (doCallback (Callback_new env p) t rt))))) =
      rt @ [Attached TheJavaVM t, StaticVoidCall (JNIEnv_of t) OdroidThingsManager entry_point p,
            Attached TheJavaVM t', StaticVoidCall (JNIEnv_of t') OdroidThingsManager entry_point q]
   \<and> (fst (associate w) = Some h \<longrightarrow>
        registerCallback env p w =
          (case gpio_registerCallback h p (Callback_new env p) (remote (snd (associate w))) of
             (ret, s') \<Rightarrow>
               (case ret of
                  Ok _ \<Rightarrow> Inr ((), (snd (associate w))\<lparr>remote := s'\<rparr>)
                | TransportError \<Rightarrow> Inl FailedReturn)))"
proof (intro conjI impI)
  show one: "\<And>p t rt. doCallback (Callback_new env p) t rt =
     (Ok (), (Callback_new env p)\<lparr>this_env := JNIEnv_of t\<rparr>,
      rt @ [Attached TheJavaVM t, StaticVoidCall (JNIEnv_of t) OdroidThingsManager entry_point p])"
    by (simp add: doCallback_def Callback_new_def AttachCurrentThread_def CallStaticVoidMethod_def
        Void_def Let_def GetJavaVM_def FindClass_def NewGlobalRef_def GetStaticMethodID_def
        OdroidThingsManager_def entry_point_def)
  show "snd (snd (doCallback (Callback_new env q) t' (snd (snd (doCallback (Callback_new env p) t rt))))) =
      rt @ [Attached TheJavaVM t, StaticVoidCall (JNIEnv_of t) OdroidThingsManager entry_point p,
            Attached TheJavaVM t', StaticVoidCall (JNIEnv_of t') OdroidThingsManager entry_point q]"
    by (simp add: one)
next
  assume "fst (associate w) = Some h"
  then have a: "associate w = (Some h, snd (associate w))"
    by (metis prod.collapse)
  show "registerCallback env p w =
          (case gpio_registerCallback h p (Callback_new env p) (remote (snd (associate w))) of
             (ret, s') \<Rightarrow>
               (case ret of
                  Ok _ \<Rightarrow> Inr ((), (snd (associate w))\<lparr>remote := s'\<rparr>)
                | TransportError \<Rightarrow> Inl FailedReturn))"
    unfolding registerCallback_def
    by (subst a)
       (simp add: hidl_call_def bindE_def Return_dropped_def split: prod.splits Return.splits)
qed

text \<open>
  Claim C3 at lines 17 and 23, and the registration of line 17 with \<open>fake_service\<close>.
\<close>

theorem bridge_delivers_own_line_witness:
  "doCallback (Callback_new (JNIEnv_of 0) 17) 1 [] =
     (Ok (), (Callback_new (JNIEnv_of 0) 17)\<lparr>this_env := JNIEnv_of 1\<rparr>,
      [Attached TheJavaVM 1, StaticVoidCall (JNIEnv_of 1) OdroidThingsManager entry_point 17])
   \<and> snd (snd (doCallback (Callback_new (JNIEnv_of 0) 23) 2
        (snd (snd (doCallback (Callback_new (JNIEnv_of 0) 17) 1 []))))) =
      [Attached TheJavaVM 1, StaticVoidCall (JNIEnv_of 1) OdroidThingsManager entry_point 17,
       Attached TheJavaVM 2, StaticVoidCall (JNIEnv_of 2) OdroidThingsManager entry_point 23]
   \<and> fst (associate (boot (Some fake_service) fake_empty)) = Some fake_service
   \<and> registerCallback (JNIEnv_of 0) 17 (boot (Some fake_service) fake_empty) =
        Inr ((), (boot (Some fake_service) fake_empty)
                   \<lparr>sOdroidThings := Some fake_service, getService_calls := 1,
                     remote := fake_empty\<lparr>gpio_callbacks := [(17, Callback_new (JNIEnv_of 0) 17)]\<rparr>\<rparr>)"
proof -
  note t = bridge_delivers_own_line [of "JNIEnv_of 0" 17 1 "[]" 23 2
      "boot (Some fake_service) fake_empty" fake_service]
  have a: "fst (associate (boot (Some fake_service) fake_empty)) = Some fake_service"
    by (simp add: associate_boot)
  have r: "gpio_registerCallback fake_service 17 (Callback_new (JNIEnv_of 0) 17) fake_empty =
      (Ok (), fake_empty\<lparr>gpio_callbacks := [(17, Callback_new (JNIEnv_of 0) 17)]\<rparr>)"
    by (simp add: fake_service_def fake_empty_def)
  from t a have "registerCallback (JNIEnv_of 0) 17 (boot (Some fake_service) fake_empty) =
     (case gpio_registerCallback fake_service 17 (Callback_new (JNIEnv_of 0) 17)
             (remote (snd (associate (boot (Some fake_service) fake_empty)))) of
        (ret, s') \<Rightarrow>
          (case ret of
             Ok _ \<Rightarrow> Inr ((), (snd (associate (boot (Some fake_service) fake_empty)))\<lparr>remote := s'\<rparr>)
           | TransportError \<Rightarrow> Inl FailedReturn))"
    by blast
  then have reg: "registerCallback (JNIEnv_of 0) 17 (boot (Some fake_service) fake_empty) =
        Inr ((), (boot (Some fake_service) fake_empty)
                   \<lparr>sOdroidThings := Some fake_service, getService_calls := 1,
                     remote := fake_empty\<lparr>gpio_callbacks := [(17, Callback_new (JNIEnv_of 0) 17)]\<rparr>\<rparr>)"
    by (simp add: associate_boot remote_boot r)
  note c1 = t [THEN conjunct1, unfolded append_Nil]
  note c2 = t [THEN conjunct2, THEN conjunct1, unfolded append_Nil]
  show ?thesis
    by (intro conjI) (rule c1, rule c2, rule a, rule reg)
qed

subsection \<open>C4: the bytes handed to a write\<close>

text \<open>
  Claim C4. For a Java array \<open>b\<close> and a length \<open>n\<close> with \<open>0 \<le> n \<le> |b|\<close>, and
  a service \<open>h\<close> behind the handle: \<^verbatim>\<open>writeI2cRegBuffer\<close>,
  \<^verbatim>\<open>writeUart\<close> and \<^verbatim>\<open>writeSpi\<close> call the service's write with the
  sequence \<open>take n b\<close>, which has exactly \<open>n\<close> elements, the \<open>i\<close>-th being
  \<open>b ! i\<close>; what they return is what the service answers to that call.
\<close>

theorem write_hands_over_exact_bytes:
  assumes "fst (associate w) = Some h" and "0 \<le> n" and "nat n \<le> length b"
  shows "length (take (nat n) b) = nat n
     \<and> (\<forall>i<nat n. take (nat n) b ! i = b ! i)
     \<and> writeI2cRegBuffer idx reg (Some b) n w =
         (case i2c_writeRegBuffer h idx reg (take (nat n) b) n (remote (snd (associate w))) of
            (r, s') \<Rightarrow>
              (case r of
                 Ok ret \<Rightarrow> Inr (if ret = OK then JNI_TRUE else JNI_FALSE,
                                (snd (associate w))\<lparr>remote := s'\<rparr>)
               | TransportError \<Rightarrow> Inl FailedReturn))
     \<and> writeUart idx (Some b) n w =
         (case uart_write h idx (take (nat n) b) n (remote (snd (associate w))) of
            (r, s') \<Rightarrow>
              (case r of
                 Ok ret \<Rightarrow> Inr (ret, (snd (associate w))\<lparr>remote := s'\<rparr>)
               | TransportError \<Rightarrow> Inl FailedReturn))
     \<and> writeSpi idx (Some b) n w =
         (case spi_write h idx (take (nat n) b) n (remote (snd (associate w))) of
            (r, s') \<Rightarrow>
              (case r of
                 Ok result \<Rightarrow> Inr (if result then JNI_TRUE else JNI_FALSE,
                                   (snd (associate w))\<lparr>remote := s'\<rparr>)
               | TransportError \<Rightarrow> Inl FailedReturn))"
proof (intro conjI)
  show "length (take (nat n) b) = nat n"
    using assms(3) by simp
  show "\<forall>i<nat n. take (nat n) b ! i = b ! i"
    by simp
qed (rule writeI2cRegBuffer_forward [OF assms], rule writeUart_forward [OF assms],
     rule writeSpi_forward [OF assms])

text \<open>
  Claim C4 at the array 1, 2, 3 and the length 2: \<open>fake_service\<close> stores the bytes
  1, 2 for each of the three writes.
\<close>

theorem write_hands_over_exact_bytes_witness:
  "fst (associate (boot (Some fake_service) fake_empty)) = Some fake_service
   \<and> (0::int) \<le> 2 \<and> nat 2 \<le> length [1, 2, 3 :: uint8_t]
   \<and> writeI2cRegBuffer 0 5 (Some [1, 2, 3]) 2 (boot (Some fake_service) fake_empty) =
       Inr (JNI_TRUE, (boot (Some fake_service) fake_empty)
              \<lparr>sOdroidThings := Some fake_service, getService_calls := 1,
                remote := fake_empty\<lparr>i2c_regs := [((0, 5), [1, 2])]\<rparr>\<rparr>)
   \<and> writeUart 0 (Some [1, 2, 3]) 2 (boot (Some fake_service) fake_empty) =
       Inr (2, (boot (Some fake_service) fake_empty)
              \<lparr>sOdroidThings := Some fake_service, getService_calls := 1,
                remote := fake_empty\<lparr>uart_lines := [(0, [1, 2])]\<rparr>\<rparr>)
   \<and> writeSpi 0 (Some [1, 2, 3]) 2 (boot (Some fake_service) fake_empty) =
       Inr (JNI_TRUE, (boot (Some fake_service) fake_empty)
              \<lparr>sOdroidThings := Some fake_service, getService_calls := 1,
                remote := fake_empty\<lparr>spi_lines := [(0, [1, 2])]\<rparr>\<rparr>)"
proof -
  have a: "fst (associate (boot (Some fake_service) fake_empty)) = Some fake_service"
    by (simp add: associate_boot)
  have n: "(0::int) \<le> 2" "nat 2 \<le> length [1, 2, 3 :: uint8_t]"
    by simp_all
  have tk: "take (nat 2) [1, 2, 3 :: uint8_t] = [1, 2]"
    by (simp add: numeral_2_eq_2)
  have rm: "remote (boot (Some fake_service) fake_empty) = fake_empty"
    by (simp add: boot_def)
  note t = write_hands_over_exact_bytes [OF a n, of 0 5]
  have i2c: "i2c_writeRegBuffer fake_service 0 5 [1, 2] 2 fake_empty =
      (Ok OK, fake_empty\<lparr>i2c_regs := [((0, 5), [1, 2])]\<rparr>)"
    by (simp add: fake_service_def fake_empty_def)
  have uart: "uart_write fake_service 0 [1, 2] 2 fake_empty =
      (Ok 2, fake_empty\<lparr>uart_lines := [(0, [1, 2])]\<rparr>)"
    by (simp add: fake_service_def fake_empty_def)
  have spi: "spi_write fake_service 0 [1, 2] 2 fake_empty =
      (Ok True, fake_empty\<lparr>spi_lines := [(0, [1, 2])]\<rparr>)"
    by (simp add: fake_service_def fake_empty_def)
  from t show ?thesis
    by (simp add: a tk associate_boot rm i2c uart spi)
qed

subsection \<open>C5: write, then read back\<close>

text \<open>
  Claim C5. Let the service behind the handle store what it receives: it accepts the
  write of \<open>b\<close> to a line and then answers the read of \<open>|b|\<close> bytes from that line
  with \<open>b\<close>. Then writing \<open>b\<close> through the write marshalling and reading
  \<open>|b|\<close> bytes back through the read marshalling returns \<open>b\<close>, for I2C, UART and
  SPI.
\<close>

theorem write_then_read_round_trip:
  assumes "fst (associate w) = Some h"
  shows "(i2c_writeRegBuffer h idx reg b (int (length b)) (remote (snd (associate w))) = (Ok OK, s1)
          \<and> i2c_readRegBuffer h idx reg (int (length b)) s1 = (Ok (OK, b), s2) \<longrightarrow>
            writeI2cRegBuffer idx reg (Some b) (int (length b)) w
              = Inr (JNI_TRUE, (snd (associate w))\<lparr>remote := s1\<rparr>)
            \<and> readI2cRegBuffer idx reg (int (length b)) ((snd (associate w))\<lparr>remote := s1\<rparr>)
              = Inr (b, (snd (associate w))\<lparr>remote := s2\<rparr>))
       \<and> (uart_write h idx b (int (length b)) (remote (snd (associate w))) = (Ok c, s1)
          \<and> uart_read h idx (int (length b)) s1 = (Ok (int (length b), b), s2) \<longrightarrow>
            writeUart idx (Some b) (int (length b)) w
              = Inr (c, (snd (associate w))\<lparr>remote := s1\<rparr>)
            \<and> readUart idx (int (length b)) ((snd (associate w))\<lparr>remote := s1\<rparr>)
              = Inr (b, (snd (associate w))\<lparr>remote := s2\<rparr>))
       \<and> (spi_write h idx b (int (length b)) (remote (snd (associate w))) = (Ok True, s1)
          \<and> spi_read h idx (int (length b)) s1 = (Ok (len, b), s2) \<longrightarrow>
            writeSpi idx (Some b) (int (length b)) w
              = Inr (JNI_TRUE, (snd (associate w))\<lparr>remote := s1\<rparr>)
            \<and> readSpi idx (int (length b)) ((snd (associate w))\<lparr>remote := s1\<rparr>)
              = Inr (b, (snd (associate w))\<lparr>remote := s2\<rparr>))"
proof -
  let ?n = "int (length b)"
  let ?w1 = "snd (associate w)"
  have n: "0 \<le> ?n" "nat ?n \<le> length b"
    by simp_all
  note wr = writeI2cRegBuffer_forward [OF assms n, of idx reg] writeUart_forward [OF assms n, of idx]
    writeSpi_forward [OF assms n, of idx]
  note a1 = associate_after_call [OF stored_after_associate [OF assms], of s1]
  note out = marshal_out [OF n]
  have i2c: "writeI2cRegBuffer idx reg (Some b) ?n w = Inr (JNI_TRUE, ?w1\<lparr>remote := s1\<rparr>)
          \<and> readI2cRegBuffer idx reg ?n (?w1\<lparr>remote := s1\<rparr>) = Inr (b, ?w1\<lparr>remote := s2\<rparr>)"
    if "i2c_writeRegBuffer h idx reg b ?n (remote ?w1) = (Ok OK, s1)"
      and "i2c_readRegBuffer h idx reg ?n s1 = (Ok (OK, b), s2)"
  proof
    from wr that(1) show "writeI2cRegBuffer idx reg (Some b) ?n w = Inr (JNI_TRUE, ?w1\<lparr>remote := s1\<rparr>)"
      by simp
    show "readI2cRegBuffer idx reg ?n (?w1\<lparr>remote := s1\<rparr>) = Inr (b, ?w1\<lparr>remote := s2\<rparr>)"
      unfolding readI2cRegBuffer_def
      by (subst a1) (simp add: hidl_call_def bindE_def that(2) isOk_def out [unfolded bindE_def])
  qed
  have uart: "writeUart idx (Some b) ?n w = Inr (c, ?w1\<lparr>remote := s1\<rparr>)
          \<and> readUart idx ?n (?w1\<lparr>remote := s1\<rparr>) = Inr (b, ?w1\<lparr>remote := s2\<rparr>)"
    if "uart_write h idx b ?n (remote ?w1) = (Ok c, s1)"
      and "uart_read h idx ?n s1 = (Ok (?n, b), s2)"
  proof
    from wr that(1) show "writeUart idx (Some b) ?n w = Inr (c, ?w1\<lparr>remote := s1\<rparr>)"
      by simp
    show "readUart idx ?n (?w1\<lparr>remote := s1\<rparr>) = Inr (b, ?w1\<lparr>remote := s2\<rparr>)"
      unfolding readUart_def
      by (subst a1)
         (simp add: hidl_call_def bindE_def that(2) Return_dropped_def NewByteArray_0
            out [unfolded bindE_def])
  qed
  have spi: "writeSpi idx (Some b) ?n w = Inr (JNI_TRUE, ?w1\<lparr>remote := s1\<rparr>)
          \<and> readSpi idx ?n (?w1\<lparr>remote := s1\<rparr>) = Inr (b, ?w1\<lparr>remote := s2\<rparr>)"
    if "spi_write h idx b ?n (remote ?w1) = (Ok True, s1)"
      and "spi_read h idx ?n s1 = (Ok (len, b), s2)"
  proof
    from wr that(1) show "writeSpi idx (Some b) ?n w = Inr (JNI_TRUE, ?w1\<lparr>remote := s1\<rparr>)"
      by simp
    show "readSpi idx ?n (?w1\<lparr>remote := s1\<rparr>) = Inr (b, ?w1\<lparr>remote := s2\<rparr>)"
      unfolding readSpi_def
      by (subst a1) (simp add: hidl_call_def bindE_def that(2) isOk_def out [unfolded bindE_def])
  qed
  from i2c uart spi show ?thesis by blast
qed

text \<open>
  Claim C5 at the bytes 7, 8, 9 on line 1 of \<open>fake_service\<close>, which stores them.
\<close>

theorem write_then_read_round_trip_witness:
  "fst (associate fake_process) = Some fake_service
   \<and> i2c_writeRegBuffer fake_service 1 16 [7, 8, 9] 3 (remote (snd (associate fake_process)))
        = (Ok OK, fake_empty\<lparr>i2c_regs := [((1, 16), [7, 8, 9])]\<rparr>)
   \<and> i2c_readRegBuffer fake_service 1 16 3 (fake_empty\<lparr>i2c_regs := [((1, 16), [7, 8, 9])]\<rparr>)
        = (Ok (OK, [7, 8, 9]), fake_empty\<lparr>i2c_regs := [((1, 16), [7, 8, 9])]\<rparr>)
   \<and> writeI2cRegBuffer 1 16 (Some [7, 8, 9]) 3 fake_process
        = Inr (JNI_TRUE, (snd (associate fake_process))
                 \<lparr>remote := fake_empty\<lparr>i2c_regs := [((1, 16), [7, 8, 9])]\<rparr>\<rparr>)
   \<and> readI2cRegBuffer 1 16 3
          ((snd (associate fake_process))\<lparr>remote := fake_empty\<lparr>i2c_regs := [((1, 16), [7, 8, 9])]\<rparr>\<rparr>)
        = Inr ([7, 8, 9], (snd (associate fake_process))
                 \<lparr>remote := fake_empty\<lparr>i2c_regs := [((1, 16), [7, 8, 9])]\<rparr>\<rparr>)
   \<and> uart_write fake_service 1 [7, 8, 9] 3 (remote (snd (associate fake_process)))
        = (Ok 3, fake_empty\<lparr>uart_lines := [(1, [7, 8, 9])]\<rparr>)
   \<and> uart_read fake_service 1 3 (fake_empty\<lparr>uart_lines := [(1, [7, 8, 9])]\<rparr>)
        = (Ok (3, [7, 8, 9]), fake_empty\<lparr>uart_lines := [(1, [7, 8, 9])]\<rparr>)
   \<and> writeUart 1 (Some [7, 8, 9]) 3 fake_process
        = Inr (3, (snd (associate fake_process))\<lparr>remote := fake_empty\<lparr>uart_lines := [(1, [7, 8, 9])]\<rparr>\<rparr>)
   \<and> readUart 1 3 ((snd (associate fake_process))\<lparr>remote := fake_empty\<lparr>uart_lines := [(1, [7, 8, 9])]\<rparr>\<rparr>)
        = Inr ([7, 8, 9], (snd (associate fake_process))
                 \<lparr>remote := fake_empty\<lparr>uart_lines := [(1, [7, 8, 9])]\<rparr>\<rparr>)
   \<and> spi_write fake_service 1 [7, 8, 9] 3 (remote (snd (associate fake_process)))
        = (Ok True, fake_empty\<lparr>spi_lines := [(1, [7, 8, 9])]\<rparr>)
   \<and> spi_read fake_service 1 3 (fake_empty\<lparr>spi_lines := [(1, [7, 8, 9])]\<rparr>)
        = (Ok (3, [7, 8, 9]), fake_empty\<lparr>spi_lines := [(1, [7, 8, 9])]\<rparr>)
   \<and> writeSpi 1 (Some [7, 8, 9]) 3 fake_process
        = Inr (JNI_TRUE, (snd (associate fake_process))\<lparr>remote := fake_empty\<lparr>spi_lines := [(1, [7, 8, 9])]\<rparr>\<rparr>)
   \<and> readSpi 1 3 ((snd (associate fake_process))\<lparr>remote := fake_empty\<lparr>spi_lines := [(1, [7, 8, 9])]\<rparr>\<rparr>)
        = Inr ([7, 8, 9], (snd (associate fake_process))
                 \<lparr>remote := fake_empty\<lparr>spi_lines := [(1, [7, 8, 9])]\<rparr>\<rparr>)"
proof -
  have a: "fst (associate fake_process) = Some fake_service"
    by (simp add: associate_fake_process)
  have r: "remote (snd (associate fake_process)) = fake_empty"
    by (simp add: associate_fake_process remote_fake_process)
  have n: "int (length [7, 8, 9 :: uint8_t]) = 3"
    by simp
  have i1: "i2c_writeRegBuffer fake_service 1 16 [7, 8, 9] 3 (remote (snd (associate fake_process)))
        = (Ok OK, fake_empty\<lparr>i2c_regs := [((1, 16), [7, 8, 9])]\<rparr>)"
    unfolding r by (simp add: fake_service_def fake_empty_def)
  have i2: "i2c_readRegBuffer fake_service 1 16 3 (fake_empty\<lparr>i2c_regs := [((1, 16), [7, 8, 9])]\<rparr>)
        = (Ok (OK, [7, 8, 9]), fake_empty\<lparr>i2c_regs := [((1, 16), [7, 8, 9])]\<rparr>)"
    by (simp add: fake_service_def fake_empty_def)
  have u1: "uart_write fake_service 1 [7, 8, 9] 3 (remote (snd (associate fake_process)))
        = (Ok 3, fake_empty\<lparr>uart_lines := [(1, [7, 8, 9])]\<rparr>)"
    unfolding r by (simp add: fake_service_def fake_empty_def)
  have u2: "uart_read fake_service 1 3 (fake_empty\<lparr>uart_lines := [(1, [7, 8, 9])]\<rparr>)
        = (Ok (3, [7, 8, 9]), fake_empty\<lparr>uart_lines := [(1, [7, 8, 9])]\<rparr>)"
    by (simp add: fake_service_def fake_empty_def)
  have s1: "spi_write fake_service 1 [7, 8, 9] 3 (remote (snd (associate fake_process)))
        = (Ok True, fake_empty\<lparr>spi_lines := [(1, [7, 8, 9])]\<rparr>)"
    unfolding r by (simp add: fake_service_def fake_empty_def)
  have s2: "spi_read fake_service 1 3 (fake_empty\<lparr>spi_lines := [(1, [7, 8, 9])]\<rparr>)
        = (Ok (3, [7, 8, 9]), fake_empty\<lparr>spi_lines := [(1, [7, 8, 9])]\<rparr>)"
    by (simp add: fake_service_def fake_empty_def)
  note t = write_then_read_round_trip [OF a, of 1 16 "[7, 8, 9]", unfolded n]
  from t [THEN conjunct1] i1 i2 have i3:
    "writeI2cRegBuffer 1 16 (Some [7, 8, 9]) 3 fake_process
        = Inr (JNI_TRUE, (snd (associate fake_process))
                 \<lparr>remote := fake_empty\<lparr>i2c_regs := [((1, 16), [7, 8, 9])]\<rparr>\<rparr>)
     \<and> readI2cRegBuffer 1 16 3
          ((snd (associate fake_process))\<lparr>remote := fake_empty\<lparr>i2c_regs := [((1, 16), [7, 8, 9])]\<rparr>\<rparr>)
        = Inr ([7, 8, 9], (snd (associate fake_process))
                 \<lparr>remote := fake_empty\<lparr>i2c_regs := [((1, 16), [7, 8, 9])]\<rparr>\<rparr>)"
    by blast
  from t [THEN conjunct2, THEN conjunct1] u1 u2 have u3:
    "writeUart 1 (Some [7, 8, 9]) 3 fake_process
        = Inr (3, (snd (associate fake_process))\<lparr>remote := fake_empty\<lparr>uart_lines := [(1, [7, 8, 9])]\<rparr>\<rparr>)
     \<and> readUart 1 3 ((snd (associate fake_process))\<lparr>remote := fake_empty\<lparr>uart_lines := [(1, [7, 8, 9])]\<rparr>\<rparr>)
        = Inr ([7, 8, 9], (snd (associate fake_process))
                 \<lparr>remote := fake_empty\<lparr>uart_lines := [(1, [7, 8, 9])]\<rparr>\<rparr>)"
    by blast
  from t [THEN conjunct2, THEN conjunct2] s1 s2 have s3:
    "writeSpi 1 (Some [7, 8, 9]) 3 fake_process
        = Inr (JNI_TRUE, (snd (associate fake_process))\<lparr>remote := fake_empty\<lparr>spi_lines := [(1, [7, 8, 9])]\<rparr>\<rparr>)
     \<and> readSpi 1 3 ((snd (associate fake_process))\<lparr>remote := fake_empty\<lparr>spi_lines := [(1, [7, 8, 9])]\<rparr>\<rparr>)
        = Inr ([7, 8, 9], (snd (associate fake_process))
                 \<lparr>remote := fake_empty\<lparr>spi_lines := [(1, [7, 8, 9])]\<rparr>\<rparr>)"
    by blast
  from a i1 i2 i3 u1 u2 u3 s1 s2 s3 show ?thesis
    by blast
qed

subsection \<open>C6: a null handle is dereferenced\<close>

text \<open>
  Claim C6. When the acquisition returns null, no native method other than
  \<^verbatim>\<open>init\<close> (which calls no service method) returns to Java; and when its
  array arguments are in range, so that the copy before the call goes through, it ends
  in the call through the null handle. No method tests the handle.
\<close>

theorem null_handle_is_dereferenced:
  assumes "fst (associate w) = None" and "m \<noteq> N_init"
  shows "(\<exists>e. call_native env m w = Inl e)
       \<and> (arguments_in_range m \<longrightarrow> call_native env m w = Inl NullDereference)"
proof -
  from assms(1) have a: "associate w = (None, snd (associate w))"
    by (metis prod.collapse)
  from null_handle_no_return [OF a assms(2), of env] have "\<exists>e. call_native env m w = Inl e"
    by (cases "call_native env m w") simp_all
  with null_handle_dereferenced [OF a assms(2)] show ?thesis
    by blast
qed

text \<open>
  Claim C6 at \<^verbatim>\<open>writeI2cRegBuffer\<close> in a process whose service manager has no
  service.
\<close>

theorem null_handle_is_dereferenced_witness:
  "fst (associate (boot None fake_empty)) = None
   \<and> N_writeI2cRegBuffer 0 5 (Some [1, 2, 3]) 2 \<noteq> N_init
   \<and> arguments_in_range (N_writeI2cRegBuffer 0 5 (Some [1, 2, 3]) 2)
   \<and> call_native (JNIEnv_of 0) (N_writeI2cRegBuffer 0 5 (Some [1, 2, 3]) 2) (boot None fake_empty)
       = Inl NullDereference"
proof -
  have a: "fst (associate (boot None fake_empty)) = None"
    by (simp add: associate_def getService_def boot_def ALOGE_def)
  have d: "N_writeI2cRegBuffer 0 5 (Some [1, 2, 3]) 2 \<noteq> N_init"
    by simp
  have r: "arguments_in_range (N_writeI2cRegBuffer 0 5 (Some [1, 2, 3]) 2)"
    by simp
  from null_handle_is_dereferenced [OF a d, of "JNIEnv_of 0"] a d r show ?thesis
    by blast
qed

subsection \<open>C7: a failed acquisition is logged and returns null\<close>

text \<open>
  Claim C7. When nothing is stored and the service manager has no service,
  \<^verbatim>\<open>associate()\<close> writes the one error line and returns null. Against a service
  manager that never has the service, every sequence of acquisitions and invalidations
  runs to its end: each acquisition returns null and logs once. Whatever the service
  manager answers, every acquisition of a sequence returns, and the native
  \<^verbatim>\<open>init\<close>, which only acquires, returns normally.
\<close>

theorem acquire_failure_is_logged_not_fatal:
  "(sOdroidThings w = None \<and> getService_answers w (getService_calls w) = None \<longrightarrow>
      associate w = (None, w\<lparr>getService_calls := Suc (getService_calls w),
                              logcat := logcat w @ [unable_msg]\<rparr>))
   \<and> (sOdroidThings w = None \<and> (\<forall>k. getService_answers w k = None) \<longrightarrow>
      handle_calls cs w =
        (replicate (acquisitions cs) None,
         w\<lparr>getService_calls := getService_calls w + acquisitions cs,
           logcat := logcat w @ replicate (acquisitions cs) unable_msg\<rparr>))
   \<and> length (fst (handle_calls cs w)) = acquisitions cs
   \<and> init w = Inr ((), snd (associate w))"
proof (intro conjI impI)
  assume "sOdroidThings w = None \<and> getService_answers w (getService_calls w) = None"
  then show "associate w = (None, w\<lparr>getService_calls := Suc (getService_calls w),
                              logcat := logcat w @ [unable_msg]\<rparr>)"
    by (simp add: associate_fresh unable_msg_def)
next
  assume "sOdroidThings w = None \<and> (\<forall>k. getService_answers w k = None)"
  then show "handle_calls cs w =
        (replicate (acquisitions cs) None,
         w\<lparr>getService_calls := getService_calls w + acquisitions cs,
           logcat := logcat w @ replicate (acquisitions cs) unable_msg\<rparr>)"
    by (simp add: handle_calls_unavailable)
next
  show "length (fst (handle_calls cs w)) = acquisitions cs"
    by (rule handle_calls_length)
next
  show "init w = Inr ((), snd (associate w))"
    by (simp add: init_def split: prod.splits)
qed

text \<open>
  Claim C7 at a process whose service manager never has the service.
\<close>

theorem acquire_failure_is_logged_not_fatal_witness:
  "sOdroidThings (boot None fake_empty) = None
   \<and> (\<forall>k. getService_answers (boot None fake_empty) k = None)
   \<and> associate (boot None fake_empty) =
        (None, (boot None fake_empty)\<lparr>getService_calls := 1, logcat := [unable_msg]\<rparr>)
   \<and> handle_calls [Acquire, Invalidate, Acquire] (boot None fake_empty) =
        ([None, None], (boot None fake_empty)\<lparr>getService_calls := 2, logcat := [unable_msg, unable_msg]\<rparr>)
   \<and> init (boot None fake_empty) =
        Inr ((), (boot None fake_empty)\<lparr>getService_calls := 1, logcat := [unable_msg]\<rparr>)"
proof -
  have s: "sOdroidThings (boot None fake_empty) = None"
    and g: "\<forall>k. getService_answers (boot None fake_empty) k = None"
    and c: "getService_calls (boot None fake_empty) = 0"
    and l: "logcat (boot None fake_empty) = []"
    by (simp_all add: boot_def)
  have n: "acquisitions [Acquire, Invalidate, Acquire] = 2"
    by (simp add: acquisitions_def)
  note t = acquire_failure_is_logged_not_fatal [of "boot None fake_empty" "[Acquire, Invalidate, Acquire]"]
  from t s g c have a: "associate (boot None fake_empty) =
      (None, (boot None fake_empty)\<lparr>getService_calls := Suc 0,
                logcat := logcat (boot None fake_empty) @ [unable_msg]\<rparr>)"
    by simp
  from t s g have h: "handle_calls [Acquire, Invalidate, Acquire] (boot None fake_empty) =
      (replicate (acquisitions [Acquire, Invalidate, Acquire]) None,
       (boot None fake_empty)\<lparr>getService_calls := getService_calls (boot None fake_empty)
             + acquisitions [Acquire, Invalidate, Acquire],
          logcat := logcat (boot None fake_empty)
             @ replicate (acquisitions [Acquire, Invalidate, Acquire]) unable_msg\<rparr>)"
    by blast
  from t have i: "init (boot None fake_empty) = Inr ((), snd (associate (boot None fake_empty)))"
    by blast
  from s g a h i show ?thesis
    by (simp add: n c l numeral_2_eq_2 del: handle_calls.simps)
qed

subsection \<open>C8: unregistering is forwarded without a check\<close>

text \<open>
  Claim C8. With a service \<open>h\<close> behind the handle, \<^verbatim>\<open>unregisterCallback\<close>
  calls \<open>h\<close>'s \<^verbatim>\<open>gpio_unregisterCallback\<close> with the line it was given, for
  every line and every state: the process keeps no table of registrations and tests
  nothing. When the call comes back, the method returns normally and has changed only
  what the service changed.
\<close>

theorem unregister_forwards_unconditionally:
  assumes "fst (associate w) = Some h"
  shows "unregisterCallback pin w =
           (case gpio_unregisterCallback h pin (remote (snd (associate w))) of
              (ret, s') \<Rightarrow>
                (case ret of
                   Ok _ \<Rightarrow> Inr ((), (snd (associate w))\<lparr>remote := s'\<rparr>)
                 | TransportError \<Rightarrow> Inl FailedReturn))
       \<and> (gpio_unregisterCallback h pin (remote (snd (associate w))) = (Ok (), s) \<longrightarrow>
            unregisterCallback pin w = Inr ((), (snd (associate w))\<lparr>remote := s\<rparr>))"
proof -
  note a = associate_pair [OF assms]
  have eq: "unregisterCallback pin w =
           (case gpio_unregisterCallback h pin (remote (snd (associate w))) of
              (ret, s') \<Rightarrow>
                (case ret of
                   Ok _ \<Rightarrow> Inr ((), (snd (associate w))\<lparr>remote := s'\<rparr>)
                 | TransportError \<Rightarrow> Inl FailedReturn))"
    unfolding unregisterCallback_def
    by (subst a) (simp add: call_dropped)
  then show ?thesis by simp
qed

text \<open>
  Claim C8 at line 5 of \<open>fake_service\<close> with no registration: the method returns
  and the service's table stays empty.
\<close>

theorem unregister_forwards_unconditionally_witness:
  "fst (associate (boot (Some fake_service) fake_empty)) = Some fake_service
   \<and> gpio_callbacks (remote (snd (associate (boot (Some fake_service) fake_empty)))) = []
   \<and> gpio_unregisterCallback fake_service 5 (remote (snd (associate (boot (Some fake_service) fake_empty))))
        = (Ok (), fake_empty)
   \<and> unregisterCallback 5 (boot (Some fake_service) fake_empty) =
        Inr ((), (snd (associate (boot (Some fake_service) fake_empty)))\<lparr>remote := fake_empty\<rparr>)"
proof -
  have a: "fst (associate (boot (Some fake_service) fake_empty)) = Some fake_service"
    by (simp add: associate_boot)
  have r: "remote (snd (associate (boot (Some fake_service) fake_empty))) = fake_empty"
    by (simp add: associate_boot remote_boot)
  have g: "gpio_callbacks (remote (snd (associate (boot (Some fake_service) fake_empty)))) = []"
    unfolding r by (simp add: fake_empty_def)
  have u: "gpio_unregisterCallback fake_service 5
             (remote (snd (associate (boot (Some fake_service) fake_empty)))) = (Ok (), fake_empty)"
    by (simp add: r) (simp add: fake_service_def fake_empty_def)
  from unregister_forwards_unconditionally [OF a, of 5 fake_empty] u
  have "unregisterCallback 5 (boot (Some fake_service) fake_empty) =
        Inr ((), (snd (associate (boot (Some fake_service) fake_empty)))\<lparr>remote := fake_empty\<rparr>)"
    by blast
  with a g u show ?thesis by blast
qed

subsection \<open>C9: the copy loop of the I2C read leaves the buffer\<close>

text \<open>
  Claim C9 does not hold. The service answers the read of one byte with a status other
  than \<^verbatim>\<open>OK\<close>, so the local buffer stays empty; the transport succeeded, so
  the loop runs and its first access, at index 0, is past the end of the buffer.
\<close>

theorem i2c_copy_loop_reads_past_empty_buffer:
  "i2c_readRegBuffer fake_service 2 3 1 (remote (snd (associate fake_process)))
     = (Ok (NOT_OK 1, []), fake_empty)
   \<and> new_uint8_t 1 = Inr [0]
   \<and> copy_loop 0 1 [] [0] = Inl OutOfBounds
   \<and> readI2cRegBuffer 2 3 1 fake_process = Inl OutOfBounds"
proof -
  have a: "fst (associate fake_process) = Some fake_service"
    by (simp add: associate_fake_process)
  have r: "remote (snd (associate fake_process)) = fake_empty"
    by (simp add: associate_fake_process remote_fake_process)
  have s: "i2c_readRegBuffer fake_service 2 3 1 (remote (snd (associate fake_process)))
     = (Ok (NOT_OK 1, []), fake_empty)"
    unfolding r by (simp add: fake_service_def fake_empty_def)
  have n: "new_uint8_t 1 = Inr [0]"
    by (simp add: new_uint8_t_def)
  have c: "copy_loop 0 1 [] [0] = Inl OutOfBounds"
    by (simp add: copy_loop_empty_source)
  from readI2cRegBuffer_status_not_OK [OF a s] s n c show ?thesis
    by simp
qed

subsection \<open>C10: the SPI reads and a short answer\<close>

text \<open>
  What \<^verbatim>\<open>readSpi\<close> and \<^verbatim>\<open>transferSpi\<close> do when the answer is long
  enough: for a requested length \<open>n \<ge> 0\<close> and an answer of at least \<open>n\<close> bytes
  they return its first \<open>n\<close> bytes, and the length \<open>len\<close> the service reports
  does not occur in the result.
\<close>

lemma spi_reads_when_answer_is_long_enough:
  assumes "fst (associate w) = Some h" and "0 \<le> n"
  shows "(spi_read h idx n (remote (snd (associate w))) = (Ok (len, result), s')
            \<and> nat n \<le> length result \<longrightarrow>
          readSpi idx n w = Inr (take (nat n) result, (snd (associate w))\<lparr>remote := s'\<rparr>)
            \<and> length (take (nat n) result) = nat n)
       \<and> (nat n \<le> length tx
            \<and> spi_transfer h idx (take (nat n) tx) n (remote (snd (associate w))) = (Ok (len, result), s')
            \<and> nat n \<le> length result \<longrightarrow>
          transferSpi idx (Some tx) n w = Inr (take (nat n) result, (snd (associate w))\<lparr>remote := s'\<rparr>)
            \<and> length (take (nat n) result) = nat n)"
proof (intro conjI impI; (elim conjE)?)
  note a = associate_pair [OF assms(1)]
  {
    assume s: "spi_read h idx n (remote (snd (associate w))) = (Ok (len, result), s')"
      and l: "nat n \<le> length result"
    show "readSpi idx n w = Inr (take (nat n) result, (snd (associate w))\<lparr>remote := s'\<rparr>)"
      unfolding readSpi_def
      by (subst a)
         (simp add: hidl_call_def bindE_def s isOk_def marshal_out [OF assms(2) l, unfolded bindE_def])
    from l show "length (take (nat n) result) = nat n" by simp
  }
  {
    assume t: "nat n \<le> length tx"
      and s: "spi_transfer h idx (take (nat n) tx) n (remote (snd (associate w))) = (Ok (len, result), s')"
      and l: "nat n \<le> length result"
    show "transferSpi idx (Some tx) n w = Inr (take (nat n) result, (snd (associate w))\<lparr>remote := s'\<rparr>)"
      unfolding transferSpi_def
      by (subst a)
         (simp add: marshal_in [OF assms(2) t],
          simp add: hidl_call_def bindE_def s isOk_def
            marshal_out [OF assms(2) l, unfolded bindE_def])
    from l show "length (take (nat n) result) = nat n" by simp
  }
qed

text \<open>
  Claim C10 does not hold. The transport succeeds and \<open>fake_service\<close> answers the
  read of four bytes from a line never written with the length 0 and no bytes.
  \<^verbatim>\<open>readSpi\<close> ignores the reported length, allocates four bytes and copies
  \<^verbatim>\<open>rxBuffer[0..3]\<close> out of the empty vector: it reads past the end and returns
  no array of four elements. The sibling \<^verbatim>\<open>readUart\<close>, given the same answer,
  looks at the reported length and returns the empty array.
\<close>

theorem spi_read_reads_past_short_answer:
  "spi_read fake_service 0 4 (remote (snd (associate fake_process))) = (Ok (0, []), fake_empty)
   \<and> isOk (fst (spi_read fake_service 0 4 (remote (snd (associate fake_process)))))
   \<and> readSpi 0 4 fake_process = Inl OutOfBounds
   \<and> uart_read fake_service 0 4 (remote (snd (associate fake_process))) = (Ok (0, []), fake_empty)
   \<and> readUart 0 4 fake_process = Inr ([], (snd (associate fake_process))\<lparr>remote := fake_empty\<rparr>)"
proof -
  have r: "remote (snd (associate fake_process)) = fake_empty"
    by (simp add: associate_fake_process remote_fake_process)
  have w: "snd (associate fake_process)
      = fake_process\<lparr>sOdroidThings := Some fake_service, getService_calls := 1\<rparr>"
    by (simp add: associate_fake_process)
  have s: "spi_read fake_service 0 4 (remote (snd (associate fake_process))) = (Ok (0, []), fake_empty)"
    unfolding r by (simp add: fake_service_def fake_empty_def)
  have k: "isOk (fst (spi_read fake_service 0 4 (remote (snd (associate fake_process)))))"
    unfolding s by (simp add: isOk_def)
  have u: "uart_read fake_service 0 4 (remote (snd (associate fake_process))) = (Ok (0, []), fake_empty)"
    unfolding r by (simp add: fake_service_def fake_empty_def)
  have spi: "readSpi 0 4 fake_process = Inl OutOfBounds"
    unfolding readSpi_def
    by (simp add: associate_fake_process hidl_call_def bindE_def s [unfolded r] remote_fake_process
        isOk_def new_uint8_t_def copy_loop_empty_source)
  have uart: "readUart 0 4 fake_process = Inr ([], (snd (associate fake_process))\<lparr>remote := fake_empty\<rparr>)"
    unfolding readUart_def w
    by (simp add: associate_fake_process hidl_call_def bindE_def u [unfolded r] remote_fake_process
        Return_dropped_def NewByteArray_0)
  from s k spi u uart show ?thesis
    by (intro conjI)
qed

end
